theory Spec2Isabelle
  imports Complex_Main "HOL-Library.Sublist"
begin

section \<open>JavaScript values shared by the server and the client\<close>

text \<open>
  A thrown value. \<open>Error m\<close> is \<^verbatim>\<open>new Error(m)\<close>; \<open>RangeError x\<close> is what
  \<^verbatim>\<open>BigInt(x)\<close> throws on a number that is not an integer, and \<open>TypeError\<close>
  what a property read on \<^verbatim>\<open>null\<close> throws (their messages are the engine's);
  \<open>Thrown name msg\<close> is any error object an external library or the platform
  rejects with, by its \<^verbatim>\<open>name\<close> and \<^verbatim>\<open>message\<close>.
\<close>

datatype exn = Error string | RangeError rat | TypeError | Thrown string string

fun exn_name :: "exn \<Rightarrow> string" where
  "exn_name (Error _) = ''Error''"
| "exn_name (RangeError _) = ''RangeError''"
| "exn_name TypeError = ''TypeError''"
| "exn_name (Thrown n _) = n"

text \<open>
  A JavaScript number that arrives through JSON is a finite double, hence a rational;
  rounding of literals to the nearest double is not modelled.
  \<^verbatim>\<open>BigInt(x)\<close> is the integer itself on an integral number and throws a
  RangeError otherwise.
\<close>

definition BigInt :: "rat \<Rightarrow> exn + int" where
  "BigInt x = (if of_int \<lfloor>x\<rfloor> = x then Inr \<lfloor>x\<rfloor> else Inl (RangeError x))"

section \<open>The moveToken tool handler (mcp-server.mts)\<close>

text \<open>
  \<^verbatim>\<open>process.env\<close>: a dictionary from variable names to strings.
\<close>

type_synonym process_env = "string \<Rightarrow> string option"

text \<open>The handler's input, as the schema declares it: two strings and a number.\<close>

record moveToken_input =
  tokenAddress :: string
  amount :: rat
  destinationAccount :: string

text \<open>The account derived from the signing key, and the two viem clients built on it.\<close>

datatype account = Account (address: string)

record public_client =
  pc_transport :: "string option"

record wallet_client =
  wc_transport :: "string option"
  wc_account :: account

text \<open>
  The three calls that leave the process, each with the arguments the handler passes:
  \<^item> \<open>ReadContract client address functionName args\<close> is
    \<^verbatim>\<open>publicClient.readContract({address, abi: ERC20_ABI, functionName, args})\<close>;
  \<^item> \<open>ApproveRouter client routerAddress tokenAddress amount waitForReceipt\<close> is
    \<^verbatim>\<open>ccip.approveRouter({...})\<close>;
  \<^item> \<open>TransferTokens client routerAddress tokenAddress amount destinationAccount
    destinationChainSelector\<close> is \<^verbatim>\<open>ccip.transferTokens({...})\<close>.
  A configuration value read from the environment may be undefined (\<open>None\<close>): the
  handler only casts it.
\<close>

datatype call =
    ReadContract public_client string string "string list"
  | ApproveRouter wallet_client "string option" string int bool
  | TransferTokens wallet_client "string option" string int string "string option"

fun is_read :: "call \<Rightarrow> bool" where
  "is_read (ReadContract _ _ _ _) = True"
| "is_read _ = False"

fun is_approve :: "call \<Rightarrow> bool" where
  "is_approve (ApproveRouter _ _ _ _ _) = True"
| "is_approve _ = False"

fun is_send :: "call \<Rightarrow> bool" where
  "is_send (TransferTokens _ _ _ _ _ _) = True"
| "is_send _ = False"

text \<open>
  The external collaborators. Each answers the call it is given with a value or with
  the exception it throws; \<open>transferTokens\<close> answers with \<open>(txHash, messageId)\<close>.
\<close>

record providers =
  privateKeyToAccount :: "string option \<Rightarrow> exn + account"
  readContract :: "call \<Rightarrow> exn + int"
  approveRouter :: "call \<Rightarrow> exn + unit"
  transferTokens :: "call \<Rightarrow> exn + string \<times> string"

text \<open>
  The handler's two response texts, each a template literal kept with the values that
  fill its holes:
  \<^item> \<open>InsufficientText balance amount\<close> is the text
    \<^verbatim>\<open>Insufficient token balance: you have ${balance}, but need ${amount}\<close>
    (after a cross mark);
  \<^item> \<open>MovedText amount tokenAddress destinationAccount txHash messageId\<close> is
    \<^verbatim>\<open>Moved ${input.amount} tokens from ${input.tokenAddress} to ${input.destinationAccount} on Arbitrum Sepolia with txHash ${txHash} and message ID ${messageId}.\<close>
  The handler returns \<^verbatim>\<open>{content: [{type: "text", text: response}]}\<close>.
\<close>

datatype response_text =
    InsufficientText int int
  | MovedText rat string string string string

datatype content_item = TextContent response_text

type_synonym tool_response = "content_item list"

text \<open>
  The handler, in the order of its statements. The result pairs the external calls made,
  in order, with the returned response or the exception that left the handler. The
  handler has no \<^verbatim>\<open>try\<close>: an exception ends it at the statement that threw.
  The three copies of the handler (the one of the older server file and the two of the
  session server) differ only in logging and in the initial value of \<^verbatim>\<open>response\<close>,
  which both branches overwrite.
\<close>

definition moveToken :: "providers \<Rightarrow> process_env \<Rightarrow> moveToken_input \<Rightarrow> call list \<times> (exn + tool_response)" where
  "moveToken P env input =
    (let RPC_URL = env ''RPC_URL'';
         PRIVATE_KEY = env ''PRIVATE_KEY'';
         ROUTER_ADDRESS = env ''ROUTER_ADDRESS'';
         DESTINATION_CHAIN_SELECTOR = env ''DESTINATION_CHAIN_SELECTOR''
     in case privateKeyToAccount P PRIVATE_KEY of
          Inl e \<Rightarrow> ([], Inl e)
        | Inr acct \<Rightarrow>
          (let publicClient = \<lparr>pc_transport = RPC_URL\<rparr>;
               walletClient = \<lparr>wc_transport = RPC_URL, wc_account = acct\<rparr>;
               router = ROUTER_ADDRESS;
               token = tokenAddress input;
               destination = destinationAccount input;
               chainSelector = DESTINATION_CHAIN_SELECTOR
           in case BigInt (amount input) of
                Inl e \<Rightarrow> ([], Inl e)
              | Inr amt \<Rightarrow>
                (let c0 = ReadContract publicClient token ''balanceOf'' [address acct]
                 in case readContract P c0 of
                      Inl e \<Rightarrow> ([c0], Inl e)
                    | Inr balance \<Rightarrow>
                      if balance < amt
                      then ([c0], Inr [TextContent (InsufficientText balance amt)])
                      else
                        (let c1 = ApproveRouter walletClient router token amt True
                         in case approveRouter P c1 of
                              Inl e \<Rightarrow> ([c0, c1], Inl e)
                            | Inr _ \<Rightarrow>
                              (let c2 = TransferTokens walletClient router token amt
                                          destination chainSelector
                               in case transferTokens P c2 of
                                    Inl e \<Rightarrow> ([c0, c1, c2], Inl e)
                                  | Inr (txHash, messageId) \<Rightarrow>
                                      ([c0, c1, c2],
                                       Inr [TextContent (MovedText (amount input)
                                              (tokenAddress input) (destinationAccount input)
                                              txHash messageId)]))))))"

text \<open>The calls of a run, and its outcome.\<close>

definition calls_of :: "call list \<times> (exn + tool_response) \<Rightarrow> call list" where
  "calls_of r = fst r"

definition outcome_of :: "call list \<times> (exn + tool_response) \<Rightarrow> exn + tool_response" where
  "outcome_of r = snd r"

text \<open>The call the handler makes to read the balance, to approve and to send.\<close>

definition balance_call :: "process_env \<Rightarrow> moveToken_input \<Rightarrow> account \<Rightarrow> call" where
  "balance_call env input acct =
     ReadContract \<lparr>pc_transport = env ''RPC_URL''\<rparr> (tokenAddress input) ''balanceOf'' [address acct]"

definition approve_call :: "process_env \<Rightarrow> moveToken_input \<Rightarrow> account \<Rightarrow> int \<Rightarrow> call" where
  "approve_call env input acct amt =
     ApproveRouter \<lparr>wc_transport = env ''RPC_URL'', wc_account = acct\<rparr>
       (env ''ROUTER_ADDRESS'') (tokenAddress input) amt True"

definition send_call :: "process_env \<Rightarrow> moveToken_input \<Rightarrow> account \<Rightarrow> int \<Rightarrow> call" where
  "send_call env input acct amt =
     TransferTokens \<lparr>wc_transport = env ''RPC_URL'', wc_account = acct\<rparr>
       (env ''ROUTER_ADDRESS'') (tokenAddress input) amt (destinationAccount input)
       (env ''DESTINATION_CHAIN_SELECTOR'')"

text \<open>Sample collaborators and inputs for the concrete evaluations.\<close>

definition sample_env :: process_env where
  "sample_env = [''RPC_URL'' \<mapsto> ''https://rpc.example'', ''PRIVATE_KEY'' \<mapsto> ''0x01'',
                 ''ROUTER_ADDRESS'' \<mapsto> ''0xrouter'', ''DESTINATION_CHAIN_SELECTOR'' \<mapsto> ''3478487238524512106'']"

definition sample_input :: "rat \<Rightarrow> moveToken_input" where
  "sample_input a = \<lparr>tokenAddress = ''0xabc'', amount = a, destinationAccount = ''0xdef''\<rparr>"

definition sample_providers :: "exn + int \<Rightarrow> exn + unit \<Rightarrow> exn + string \<times> string \<Rightarrow> providers" where
  "sample_providers bal appr snd_res =
     \<lparr>privateKeyToAccount = (\<lambda>k. case k of None \<Rightarrow> Inl (Thrown ''InvalidPrivateKeyError'' ''undefined'')
                                       | Some _ \<Rightarrow> Inr (Account ''0xsender'')),
      readContract = (\<lambda>_. bal),
      approveRouter = (\<lambda>_. appr),
      transferTokens = (\<lambda>_. snd_res)\<rparr>"

section \<open>JavaScript strings and JSON values (llm-client.ts)\<close>

text \<open>
  A JavaScript string is modelled as a list of code units below 256 (Latin-1); strings
  with higher code units are outside the model. The classes below are those of the
  regular expressions and of \<^verbatim>\<open>trim\<close> on that range: \<^verbatim>\<open>\s\<close> and
  \<^verbatim>\<open>trim\<close> take tab, line feed, vertical tab, form feed, carriage return, space
  and no-break space; \<^verbatim>\<open>\w\<close> takes letters, digits and the underscore;
  \<^verbatim>\<open>\d\<close> takes the ten digits; \<^verbatim>\<open>.\<close> takes everything but the line
  terminators.
\<close>

definition dq :: char where "dq = CHR 0x22"
definition bs :: char where "bs = CHR 0x5C"
definition nl :: char where "nl = CHR 0x0A"

definition is_space :: "char \<Rightarrow> bool" where
  "is_space c = (c \<in> set [CHR 0x09, CHR 0x0A, CHR 0x0B, CHR 0x0C, CHR 0x0D, CHR 0x20, CHR 0xA0])"

definition is_digit :: "char \<Rightarrow> bool" where
  "is_digit c = (c \<in> set ''0123456789'')"

definition is_word :: "char \<Rightarrow> bool" where
  "is_word c = (c \<in> set ''abcdefghijklmnopqrstuvwxyzABCDEFGHIJKLMNOPQRSTUVWXYZ0123456789_'')"

definition digit_val :: "char \<Rightarrow> nat" where
  "digit_val c = of_char c - 48"

definition digits_val :: "string \<Rightarrow> nat" where
  "digits_val ds = foldl (\<lambda>n c. 10 * n + digit_val c) 0 ds"

definition is_line_terminator :: "char \<Rightarrow> bool" where
  "is_line_terminator c = (c = CHR 0x0A \<or> c = CHR 0x0D)"

text \<open>
  \<^verbatim>\<open>join\<close>, \<^verbatim>\<open>trim\<close>, \<^verbatim>\<open>includes\<close> and \<^verbatim>\<open>toLowerCase\<close> of the
  language, and the decimal rendering of a natural number and of a number of
  milliseconds divided by 1000 (at most three decimals, trailing zeros dropped), as a
  template literal renders them below 10^15.
\<close>

fun join :: "string \<Rightarrow> string list \<Rightarrow> string" where
  "join sep [] = []"
| "join sep [x] = x"
| "join sep (x # y # ys) = x @ sep @ join sep (y # ys)"

definition trim :: "string \<Rightarrow> string" where
  "trim s = rev (dropWhile is_space (rev (dropWhile is_space s)))"

fun str_includes :: "string \<Rightarrow> string \<Rightarrow> bool" where
  "str_includes [] p = (p = [])"
| "str_includes (c # cs) p = (prefix p (c # cs) \<or> str_includes cs p)"

definition to_lower_char :: "char \<Rightarrow> char" where
  "to_lower_char c =
     (case map_of (zip ''ABCDEFGHIJKLMNOPQRSTUVWXYZ'' ''abcdefghijklmnopqrstuvwxyz'') c of
        Some l \<Rightarrow> l
      | None \<Rightarrow>
         (let n = of_char c :: nat
          in if 192 \<le> n \<and> n \<le> 222 \<and> n \<noteq> 215 then char_of (n + 32) else c))"

definition toLowerCase :: "string \<Rightarrow> string" where
  "toLowerCase s = map to_lower_char s"

definition digit_char :: "nat \<Rightarrow> char" where
  "digit_char d = ''0123456789'' ! d"

fun show_nat :: "nat \<Rightarrow> string" where
  "show_nat n = (if n < 10 then [digit_char n] else show_nat (n div 10) @ [digit_char (n mod 10)])"

declare show_nat.simps [simp del]

definition show_thousandths :: "nat \<Rightarrow> string" where
  "show_thousandths ms =
     show_nat (ms div 1000) @
     (let f = ms mod 1000
      in if f = 0 then []
         else ''.'' @ rev (dropWhile (\<lambda>c. c = CHR ''0'')
                        (rev [digit_char (f div 100), digit_char (f div 10 mod 10), digit_char (f mod 10)])))"

text \<open>
  A JSON value. An object keeps its members in insertion order; a repeated key keeps its
  place and takes the later value.
\<close>

datatype jsvalue = JNull | JBool bool | JNumber rat | JString string
  | JArray "jsvalue list" | JObject "(string \<times> jsvalue) list"

fun put_member :: "string \<Rightarrow> jsvalue \<Rightarrow> (string \<times> jsvalue) list \<Rightarrow> (string \<times> jsvalue) list" where
  "put_member k v [] = [(k, v)]"
| "put_member k v ((k', v') # ps) = (if k = k' then (k, v) # ps else (k', v') # put_member k v ps)"

text \<open>
  \<^verbatim>\<open>JSON.parse\<close> is the language's own; the driver below takes it as a parameter.
  \<open>json_parse\<close> is a reference parser for the JSON grammar (objects, arrays, strings
  with the two-character escapes, numbers, the three literals), used where a concrete
  text is evaluated; \<open>None\<close> is the SyntaxError. It does not decode
  \<^verbatim>\<open>\u\<close> escapes (it answers \<open>None\<close> on them) and keeps the exact decimal
  value of a number. The recursion is bounded by the length of the text, which every
  nesting and every member consumes.
\<close>

definition json_ws :: "string \<Rightarrow> string" where
  "json_ws s = dropWhile (\<lambda>c. c \<in> set [CHR 0x20, CHR 0x09, CHR 0x0A, CHR 0x0D]) s"

definition unescape :: "char \<Rightarrow> char option" where
  "unescape e =
     (if e = dq then Some dq else if e = bs then Some bs else if e = CHR ''/'' then Some (CHR ''/'')
      else if e = CHR ''b'' then Some (CHR 0x08) else if e = CHR ''f'' then Some (CHR 0x0C)
      else if e = CHR ''n'' then Some (CHR 0x0A) else if e = CHR ''r'' then Some (CHR 0x0D)
      else if e = CHR ''t'' then Some (CHR 0x09) else None)"

fun json_string :: "string \<Rightarrow> (string \<times> string) option" where
  "json_string [] = None"
| "json_string (c # cs) =
     (if c = dq then Some ([], cs)
      else if c = bs then
        (case cs of
           [] \<Rightarrow> None
         | e # cs' \<Rightarrow>
            (case unescape e of
               None \<Rightarrow> None
             | Some d \<Rightarrow> (case json_string cs' of None \<Rightarrow> None | Some (s, r) \<Rightarrow> Some (d # s, r))))
      else if (of_char c :: nat) < 32 then None
      else (case json_string cs of None \<Rightarrow> None | Some (s, r) \<Rightarrow> Some (c # s, r)))"

definition json_number :: "string \<Rightarrow> (rat \<times> string) option" where
  "json_number s =
     (let neg = (s \<noteq> [] \<and> hd s = CHR ''-'');
          s1 = (if neg then tl s else s);
          ip = takeWhile is_digit s1;
          s2 = dropWhile is_digit s1
      in if ip = [] \<or> (length ip > 1 \<and> hd ip = CHR ''0'') then None
         else
           (let has_frac = (s2 \<noteq> [] \<and> hd s2 = CHR ''.'');
                fp = (if has_frac then takeWhile is_digit (tl s2) else []);
                s3 = (if has_frac then dropWhile is_digit (tl s2) else s2)
            in if has_frac \<and> fp = [] then None
               else
                 (let has_exp = (s3 \<noteq> [] \<and> (hd s3 = CHR ''e'' \<or> hd s3 = CHR ''E''));
                      s4 = (if has_exp then tl s3 else s3);
                      eneg = (has_exp \<and> s4 \<noteq> [] \<and> hd s4 = CHR ''-'');
                      s5 = (if has_exp \<and> s4 \<noteq> [] \<and> (hd s4 = CHR ''-'' \<or> hd s4 = CHR ''+'') then tl s4 else s4);
                      ep = (if has_exp then takeWhile is_digit s5 else []);
                      s6 = (if has_exp then dropWhile is_digit s5 else s3)
                  in if has_exp \<and> ep = [] then None
                     else
                       (let mant = of_nat (digits_val (ip @ fp)) / 10 ^ length fp :: rat;
                            scaled = (if eneg then mant / 10 ^ digits_val ep else mant * 10 ^ digits_val ep)
                        in Some (if neg then - scaled else scaled, s6)))))"

fun json_value :: "nat \<Rightarrow> string \<Rightarrow> (jsvalue \<times> string) option"
  and json_members :: "nat \<Rightarrow> (string \<times> jsvalue) list \<Rightarrow> string \<Rightarrow> (jsvalue \<times> string) option"
  and json_elements :: "nat \<Rightarrow> jsvalue list \<Rightarrow> string \<Rightarrow> (jsvalue \<times> string) option" where
  "json_value 0 s = None"
| "json_value (Suc k) s =
     (case json_ws s of
        [] \<Rightarrow> None
      | c # cs \<Rightarrow>
         if c = CHR ''{'' then
           (case json_ws cs of
              [] \<Rightarrow> None
            | d # ds \<Rightarrow> if d = CHR ''}'' then Some (JObject [], ds) else json_members k [] cs)
         else if c = CHR ''['' then
           (case json_ws cs of
              [] \<Rightarrow> None
            | d # ds \<Rightarrow> if d = CHR '']'' then Some (JArray [], ds) else json_elements k [] cs)
         else if c = dq then
           (case json_string cs of None \<Rightarrow> None | Some (str, r) \<Rightarrow> Some (JString str, r))
         else if prefix ''true'' (c # cs) then Some (JBool True, drop 4 (c # cs))
         else if prefix ''false'' (c # cs) then Some (JBool False, drop 5 (c # cs))
         else if prefix ''null'' (c # cs) then Some (JNull, drop 4 (c # cs))
         else (case json_number (c # cs) of None \<Rightarrow> None | Some (x, r) \<Rightarrow> Some (JNumber x, r)))"
| "json_members 0 acc s = None"
| "json_members (Suc k) acc s =
     (case json_ws s of
        [] \<Rightarrow> None
      | c # cs \<Rightarrow>
         if c \<noteq> dq then None
         else
           (case json_string cs of
              None \<Rightarrow> None
            | Some (key, r1) \<Rightarrow>
               (case json_ws r1 of
                  [] \<Rightarrow> None
                | c2 # r2 \<Rightarrow>
                   if c2 \<noteq> CHR '':'' then None
                   else
                     (case json_value k r2 of
                        None \<Rightarrow> None
                      | Some (v, r3) \<Rightarrow>
                         (case json_ws r3 of
                            [] \<Rightarrow> None
                          | c4 # r4 \<Rightarrow>
                             if c4 = CHR '','' then json_members k (put_member key v acc) r4
                             else if c4 = CHR ''}'' then Some (JObject (put_member key v acc), r4)
                             else None)))))"
| "json_elements 0 acc s = None"
| "json_elements (Suc k) acc s =
     (case json_value k s of
        None \<Rightarrow> None
      | Some (v, r1) \<Rightarrow>
         (case json_ws r1 of
            [] \<Rightarrow> None
          | c # r2 \<Rightarrow>
             if c = CHR '','' then json_elements k (acc @ [v]) r2
             else if c = CHR '']'' then Some (JArray (acc @ [v]), r2)
             else None))"

definition json_parse :: "string \<Rightarrow> jsvalue option" where
  "json_parse s =
     (case json_value (Suc (length s)) s of
        None \<Rightarrow> None
      | Some (v, r) \<Rightarrow> if json_ws r = [] then Some v else None)"

section \<open>The conversational driver (llm-client.ts)\<close>

subsection \<open>Reading a tool command from a reply\<close>

text \<open>
  \<^verbatim>\<open>llmReply.split('\n')[0]\<close>: the reply up to its first line feed.
\<close>

definition first_line :: "string \<Rightarrow> string" where
  "first_line s = takeWhile (\<lambda>c. c \<noteq> nl) s"

text \<open>
  \<^verbatim>\<open>rest.match(/^(\w+)\(\s*(\{.*\})\s*\)$/)\<close>, by its two groups. The match is
  unique: the word run before the parenthesis is maximal, the white space after it is
  skipped whole, the string ends with the closing parenthesis, and the closing brace is
  the last character before the white space that precedes that parenthesis; between the
  braces no line terminator may stand.
\<close>

definition parenMatch :: "string \<Rightarrow> (string \<times> string) option" where
  "parenMatch rest =
     (let w = takeWhile is_word rest; r1 = dropWhile is_word rest
      in if w = [] then None
         else
           (case r1 of
              [] \<Rightarrow> None
            | c # r2 \<Rightarrow>
               if c \<noteq> CHR ''('' then None
               else
                 (let r3 = dropWhile is_space r2
                  in if r3 = [] \<or> last r3 \<noteq> CHR '')'' then None
                     else
                       (let g2 = rev (dropWhile is_space (rev (butlast r3)))
                        in if 2 \<le> length g2 \<and> hd g2 = CHR ''{'' \<and> last g2 = CHR ''}''
                              \<and> (\<forall>c \<in> set g2. \<not> is_line_terminator c)
                           then Some (w, g2) else None))))"

text \<open>
  The tool name and the argument text of a reply that starts with the marker: the first
  line without its first five characters, trimmed, then either the two groups of the
  parenthesised form, or the text before and after the first space, or the whole text as
  the name.
\<close>

definition parse_tool_command :: "string \<Rightarrow> string \<times> string" where
  "parse_tool_command llmReply =
     (let toolLine = first_line llmReply;
          rest = trim (drop 5 toolLine)
      in case parenMatch rest of
           Some (g1, g2) \<Rightarrow> (g1, g2)
         | None \<Rightarrow>
            if CHR 0x20 \<in> set rest
            then (takeWhile (\<lambda>c. c \<noteq> CHR 0x20) rest,
                  trim (drop 1 (dropWhile (\<lambda>c. c \<noteq> CHR 0x20) rest)))
            else (rest, []))"

subsection \<open>The argument payload\<close>

text \<open>
  \<^verbatim>\<open>/(\w+):\s*"([^"]+)"|(\w+):\s*(\d+)/\<close>. \<open>kv_here\<close> matches it at the start of
  a string and answers the groups, (1, 2) of the first alternative or (3, 4) of the
  second, with the length of the match; every repetition of the expression is followed
  by a character outside its class, so the greedy match is the only one.
  \<open>match_global n s\<close> is \<^verbatim>\<open>s.match(/.../g)\<close> from a position that lies
  \<open>n\<close> characters inside the previous match: the matched texts, leftmost first,
  without overlap. \<open>match_first\<close> is the match without the flag: the groups of the
  leftmost match.
\<close>

datatype kv_groups = Quoted string string | Digits string string

definition kv_here :: "string \<Rightarrow> (kv_groups \<times> nat) option" where
  "kv_here s =
     (let w = takeWhile is_word s; r1 = dropWhile is_word s
      in if w = [] then None
         else
           (case r1 of
              [] \<Rightarrow> None
            | c # r2 \<Rightarrow>
               if c \<noteq> CHR '':'' then None
               else
                 (let ws = takeWhile is_space r2; r3 = dropWhile is_space r2
                  in case r3 of
                       [] \<Rightarrow> None
                     | d # r4 \<Rightarrow>
                        if d = dq then
                          (let body = takeWhile (\<lambda>c. c \<noteq> dq) r4; r5 = dropWhile (\<lambda>c. c \<noteq> dq) r4
                           in if body \<noteq> [] \<and> r5 \<noteq> []
                              then Some (Quoted w body, length w + 1 + length ws + 1 + length body + 1)
                              else None)
                        else
                          (let ds = takeWhile is_digit r3
                           in if ds \<noteq> [] then Some (Digits w ds, length w + 1 + length ws + length ds)
                              else None))))"

fun match_global :: "nat \<Rightarrow> string \<Rightarrow> string list" where
  "match_global _ [] = []"
| "match_global (Suc k) (c # cs) = match_global k cs"
| "match_global 0 (c # cs) =
     (case kv_here (c # cs) of
        Some (g, n) \<Rightarrow> take n (c # cs) # match_global (n - 1) cs
      | None \<Rightarrow> match_global 0 cs)"

fun match_first :: "string \<Rightarrow> kv_groups option" where
  "match_first [] = None"
| "match_first (c # cs) =
     (case kv_here (c # cs) of Some (g, n) \<Rightarrow> Some g | None \<Rightarrow> match_first cs)"

text \<open>
  \<^verbatim>\<open>parseInt\<close> on a run of digits; \<^verbatim>\<open>obj[key] = value\<close> on an object
  literal, where an assignment of a string or a number to \<^verbatim>\<open>__proto__\<close> changes
  nothing; the body of \<^verbatim>\<open>matches.forEach\<close>; and the inner \<^verbatim>\<open>try\<close> block,
  \<open>None\<close> when it throws.
\<close>

definition parseInt :: "string \<Rightarrow> rat" where
  "parseInt ds = of_nat (digits_val ds)"

definition assign_property :: "string \<Rightarrow> jsvalue \<Rightarrow> (string \<times> jsvalue) list \<Rightarrow> (string \<times> jsvalue) list" where
  "assign_property key v obj = (if key = ''__proto__'' then obj else put_member key v obj)"

definition extract_entry :: "(string \<times> jsvalue) list \<Rightarrow> string \<Rightarrow> (string \<times> jsvalue) list" where
  "extract_entry obj m =
     (case match_first m of
        None \<Rightarrow> obj
      | Some (Quoted g1 g2) \<Rightarrow> assign_property g1 (JString g2) obj
      | Some (Digits g3 g4) \<Rightarrow> assign_property g3 (JNumber (parseInt g4)) obj)"

definition manual_extract :: "string \<Rightarrow> jsvalue option" where
  "manual_extract argsJson =
     (let fixedJson = argsJson
      in if prefix ''{'' fixedJson \<and> str_includes fixedJson [dq] \<and> \<not> str_includes fixedJson [bs, dq]
         then (case match_global 0 fixedJson of
                 [] \<Rightarrow> None
               | m # ms \<Rightarrow> Some (JObject (foldl extract_entry [] (m # ms))))
         else None)"

text \<open>
  The values the manual extraction can store under a key: a string, or a number that
  is a natural number.
\<close>

fun is_scraped_value :: "jsvalue \<Rightarrow> bool" where
  "is_scraped_value (JString s) = True"
| "is_scraped_value (JNumber x) = (0 \<le> x \<and> of_int \<lfloor>x\<rfloor> = x)"
| "is_scraped_value _ = False"

text \<open>
  The value of \<^verbatim>\<open>args\<close> when the tool is invoked: the empty object for an empty
  argument text, else what \<^verbatim>\<open>JSON.parse\<close> answers, else what the manual extraction
  answers, else the empty object.
\<close>

definition parse_args :: "(string \<Rightarrow> jsvalue option) \<Rightarrow> string \<Rightarrow> jsvalue" where
  "parse_args JSON_parse argsJson =
     (if argsJson = [] then JObject []
      else (case JSON_parse argsJson of
              Some v \<Rightarrow> v
            | None \<Rightarrow> (case manual_extract argsJson of Some obj \<Rightarrow> obj | None \<Rightarrow> JObject [])))"

subsection \<open>Bounded external operations\<close>

text \<open>
  An external operation settles after some milliseconds with a value or an exception,
  or never. \<^verbatim>\<open>fetch\<close> answers a response whose body is read as text or as JSON;
  the request carries the endpoint, the headers and the three fields of its JSON body.
  An operation that settles in the very millisecond its timer fires counts as late.
\<close>

datatype 'a settlement = Settles nat "exn + 'a" | Never

record http_response =
  ok :: bool
  status :: nat
  statusText :: string
  body_text :: "exn + string"
  body_json :: "exn + jsvalue"

record fetch_request =
  endpoint :: string
  headers :: "(string \<times> string) list"
  body_model :: string
  body_prompt :: string
  body_stream :: bool

record client_env =
  process_env :: process_env
  fetch :: "fetch_request \<Rightarrow> http_response settlement"
  mcp_callTool :: "string \<Rightarrow> jsvalue \<Rightarrow> string list settlement"
  JSON_parse :: "string \<Rightarrow> jsvalue option"
  JSON_stringify :: "jsvalue \<Rightarrow> string"

text \<open>
  \<^verbatim>\<open>callLLM\<close>. The timer aborts the request after \<open>llm_abort_ms\<close>
  (\<^verbatim>\<open>setTimeout(() => controller.abort(), 100000)\<close>); the \<^verbatim>\<open>catch\<close> block turns
  an error named AbortError into \<open>llm_timeout_error\<close> and rethrows any other.
\<close>

definition llm_abort_ms :: nat where
  "llm_abort_ms = 100000"

definition llm_timeout_error :: exn where
  "llm_timeout_error = Error ''LLM request timed out after 30 seconds''"

definition llm_catch :: "exn \<Rightarrow> exn" where
  "llm_catch error = (if exn_name error = ''AbortError'' then llm_timeout_error else error)"

fun lookup_property :: "(string \<times> jsvalue) list \<Rightarrow> string \<Rightarrow> jsvalue option" where
  "lookup_property [] k = None"
| "lookup_property ((k', v) # ps) k = (if k = k' then Some v else lookup_property ps k)"

definition callLLM :: "client_env \<Rightarrow> string \<Rightarrow> exn + string" where
  "callLLM E conversation =
     (let endpoint = (case process_env E ''LLAMA_API_URL'' of
                        None \<Rightarrow> ''http://localhost:11434/api/generate'' | Some u \<Rightarrow> u);
          apiKey = process_env E ''LLAMA_API_KEY'';
          headers = [(''Content-Type'', ''application/json'')] @
                    (case apiKey of
                       None \<Rightarrow> []
                     | Some k \<Rightarrow> if k = [] then [] else [(''Authorization'', ''Bearer '' @ k)]);
          request = \<lparr>endpoint = endpoint, headers = headers, body_model = ''llama3.2'',
                     body_prompt = conversation, body_stream = False\<rparr>
      in case fetch E request of
           Never \<Rightarrow> Inl llm_timeout_error
         | Settles t r \<Rightarrow>
            if llm_abort_ms \<le> t then Inl llm_timeout_error
            else
              (case r of
                 Inl error \<Rightarrow> Inl (llm_catch error)
               | Inr res \<Rightarrow>
                  if \<not> ok res then
                    (case body_text res of
                       Inl error \<Rightarrow> Inl (llm_catch error)
                     | Inr txt \<Rightarrow>
                        Inl (Error (''LLM request failed: '' @ show_nat (status res) @ '' '' @
                                    statusText res @ '' - '' @ txt)))
                  else
                    (case body_json res of
                       Inl error \<Rightarrow> Inl (llm_catch error)
                     | Inr json \<Rightarrow>
                        (case json of
                           JNull \<Rightarrow> Inl TypeError
                         | JObject ps \<Rightarrow>
                            (case lookup_property ps ''response'' of
                               Some (JString response) \<Rightarrow> Inr response
                             | _ \<Rightarrow> Inl (Error (''Unexpected response format: '' @ JSON_stringify E json)))
                         | _ \<Rightarrow> Inl (Error (''Unexpected response format: '' @ JSON_stringify E json))))))"

text \<open>
  \<^verbatim>\<open>callToolWithTimeout\<close>: the tool call raced against a timer of
  \<^verbatim>\<open>timeoutMs\<close>, 300000 by default; a tool result is the list of the texts of its
  content items.
\<close>

definition tool_timeout_error :: "string \<Rightarrow> nat \<Rightarrow> exn" where
  "tool_timeout_error toolName timeoutMs =
     Error (''Tool '' @ [CHR 0x27] @ toolName @ [CHR 0x27] @ '' timed out after '' @
            show_thousandths timeoutMs @ '' seconds'')"

definition callToolWithTimeout :: "client_env \<Rightarrow> string \<Rightarrow> jsvalue \<Rightarrow> nat \<Rightarrow> exn + string list" where
  "callToolWithTimeout E toolName args timeoutMs =
     (case mcp_callTool E toolName args of
        Never \<Rightarrow> Inl (tool_timeout_error toolName timeoutMs)
      | Settles t r \<Rightarrow> if timeoutMs \<le> t then Inl (tool_timeout_error toolName timeoutMs) else r)"

definition default_tool_timeout_ms :: nat where
  "default_tool_timeout_ms = 300000"

subsection \<open>One user turn, and the loop\<close>

text \<open>
  One pass of the body of \<^verbatim>\<open>while (true)\<close> on the answer read from the console:
  the completion and tool requests sent, in order, the transcript afterwards, and
  whether the loop goes on (\<open>Continue\<close>) or ends (\<open>Break\<close>). Console output is
  left out.
\<close>

datatype ext_call = LLMCall string | ToolCall string jsvalue

fun is_tool_call :: "ext_call \<Rightarrow> bool" where
  "is_tool_call (ToolCall _ _) = True"
| "is_tool_call (LLMCall _) = False"

datatype loop_control = Continue | Break

record turn_result =
  ext_calls :: "ext_call list"
  history_after :: "string list"
  control :: loop_control

definition follow_up_instruction :: string where
  "follow_up_instruction =
     [nl, nl] @ ''Provide a helpful summary of the result to the user. Do not call any additional tools.''"

definition canned_completion :: string where
  "canned_completion =
     ''Assistant: The token transfer has been completed successfully! The transaction details are shown above.''"

definition turn :: "client_env \<Rightarrow> string list \<Rightarrow> string \<Rightarrow> turn_result" where
  "turn E history answer =
     (let userInput = trim answer
      in if toLowerCase userInput = ''exit''
         then \<lparr>ext_calls = [], history_after = history, control = Break\<rparr>
         else
           (let history1 = history @ [''User: '' @ userInput];
                conversationText = join [nl] history1
            in case callLLM E conversationText of
                 Inl err \<Rightarrow>
                   \<lparr>ext_calls = [LLMCall conversationText], history_after = history1, control = Break\<rparr>
               | Inr llmReply \<Rightarrow>
                  if prefix ''TOOL:'' llmReply then
                    (let toolName = fst (parse_tool_command llmReply);
                         argsJson = snd (parse_tool_command llmReply);
                         args = parse_args (JSON_parse E) argsJson
                     in case callToolWithTimeout E toolName args default_tool_timeout_ms of
                          Inl err \<Rightarrow>
                            \<lparr>ext_calls = [LLMCall conversationText, ToolCall toolName args],
                             history_after = history1, control = Break\<rparr>
                        | Inr toolResult \<Rightarrow>
                           (let output = join [nl] toolResult;
                                history2 = history1 @ [''Tool result for '' @ toolName @ '': '' @ output];
                                followUpPrompt = join [nl] history2 @ follow_up_instruction
                            in case callLLM E followUpPrompt of
                                 Inl err \<Rightarrow>
                                   \<lparr>ext_calls = [LLMCall conversationText, ToolCall toolName args,
                                                 LLMCall followUpPrompt],
                                    history_after = history2, control = Break\<rparr>
                               | Inr followUp \<Rightarrow>
                                  if prefix ''TOOL:'' followUp then
                                    \<lparr>ext_calls = [LLMCall conversationText, ToolCall toolName args,
                                                  LLMCall followUpPrompt],
                                     history_after = history2 @ [canned_completion],
                                     control = Continue\<rparr>
                                  else
                                    \<lparr>ext_calls = [LLMCall conversationText, ToolCall toolName args,
                                                  LLMCall followUpPrompt],
                                     history_after = history2 @ [''Assistant: '' @ followUp],
                                     control = Continue\<rparr>))
                  else
                    \<lparr>ext_calls = [LLMCall conversationText],
                     history_after = history1 @ [''Assistant: '' @ llmReply],
                     control = Continue\<rparr>))"

text \<open>
  The loop over the answers typed at the console.
\<close>

fun main_loop :: "client_env \<Rightarrow> string list \<Rightarrow> string list \<Rightarrow> ext_call list \<times> string list" where
  "main_loop E history [] = ([], history)"
| "main_loop E history (answer # answers) =
     (let r = turn E history answer
      in case control r of
           Break \<Rightarrow> (ext_calls r, history_after r)
         | Continue \<Rightarrow>
            (let rest = main_loop E (history_after r) answers
             in (ext_calls r @ fst rest, snd rest)))"

section \<open>Configuration (config.ts) and server startup (mcp-server.mts)\<close>

text \<open>
  The string entries of \<^verbatim>\<open>config\<close>, by key, as read from the environment
  (the two numeric entries, \<^verbatim>\<open>amount\<close> and \<^verbatim>\<open>mcpServerPort\<close>, are never
  read by the validation); a value is falsy when it is undefined or empty.
\<close>

definition config :: "process_env \<Rightarrow> string \<Rightarrow> string option" where
  "config env key =
     (if key = ''rpcUrl'' then env ''RPC_URL''
      else if key = ''privateKey'' then env ''PRIVATE_KEY''
      else if key = ''routerAddress'' then env ''ROUTER_ADDRESS''
      else if key = ''tokenAddress'' then env ''TOKEN_ADDRESS''
      else if key = ''destinationChainSelector'' then env ''DESTINATION_CHAIN_SELECTOR''
      else if key = ''destinationAccount'' then env ''DESTINATION_ACCOUNT''
      else if key = ''llamaApiUrl'' then
        Some (case env ''LLAMA_API_URL'' of None \<Rightarrow> ''http://localhost:11434/api/generate'' | Some u \<Rightarrow> u)
      else if key = ''llamaApiKey'' then env ''LLAMA_API_KEY''
      else None)"

definition falsy :: "string option \<Rightarrow> bool" where
  "falsy v = (case v of None \<Rightarrow> True | Some s \<Rightarrow> s = [])"

definition required :: "string list" where
  "required = [''rpcUrl'', ''privateKey'', ''routerAddress'', ''destinationChainSelector'']"

definition validateConfig :: "process_env \<Rightarrow> exn + unit" where
  "validateConfig env =
     (let missing = filter (\<lambda>key. falsy (config env key)) required
      in if length missing > 0
         then Inl (Error (''Missing required environment variables: '' @ join '', '' missing))
         else Inr ())"

text \<open>
  \<^verbatim>\<open>start()\<close> of the server: it registers the three tools and listens on port
  3001. It reads nothing from the environment and does not call
  \<^verbatim>\<open>validateConfig\<close>; the environment is first read when the moveToken handler
  runs. (Failures of the HTTP library are left out.)
\<close>

datatype startup = Listening nat "string list" | Exited nat

definition start :: "process_env \<Rightarrow> startup" where
  "start env = Listening 3001 [''helloWorld'', ''getCurrentTime'', ''moveToken'']"

section \<open>Sample collaborators of the driver\<close>

text \<open>
  A completion endpoint that answers \<open>llm prompt\<close> after 1200 ms, and a tool
  server that settles as \<open>tool\<close> says; \<^verbatim>\<open>JSON.parse\<close> is the reference parser.
\<close>

definition llm_response :: "string \<Rightarrow> http_response" where
  "llm_response reply =
     \<lparr>ok = True, status = 200, statusText = ''OK'', body_text = Inr [],
      body_json = Inr (JObject [(''response'', JString reply)])\<rparr>"

definition scripted_client :: "(string \<Rightarrow> string) \<Rightarrow> string list settlement \<Rightarrow> client_env" where
  "scripted_client llm tool =
     \<lparr>process_env = Map.empty,
      fetch = (\<lambda>req. Settles 1200 (Inr (llm_response (llm (body_prompt req))))),
      mcp_callTool = (\<lambda>toolName args. tool),
      JSON_parse = json_parse,
      JSON_stringify = (\<lambda>v. [])\<rparr>"

text \<open>
  A completion endpoint and a tool server that settle as given, whatever the request.
\<close>

definition timed_client :: "http_response settlement \<Rightarrow> string list settlement \<Rightarrow> client_env" where
  "timed_client completion tool =
     \<lparr>process_env = Map.empty,
      fetch = (\<lambda>req. completion),
      mcp_callTool = (\<lambda>toolName args. tool),
      JSON_parse = json_parse,
      JSON_stringify = (\<lambda>v. [])\<rparr>"

text \<open>The reply of the specification's example, and its payload.\<close>

definition example_payload :: string where
  \<open>example_payload = ''{"tokenAddress":"0xabc","amount":5,"destinationAccount":"0xdef"}''\<close>

definition example_line :: string where
  "example_line = ''TOOL: moveToken '' @ example_payload"

text \<open>A payload with unquoted keys, and one without any quote.\<close>

definition unquoted_payload :: string where
  \<open>unquoted_payload = ''{tokenAddress: "0xabc", amount: 5}''\<close>

definition bare_payload :: string where
  "bare_payload = ''{amount: 5}''"

section \<open>Properties of the moveToken handler\<close>

lemma BigInt_of_int: "BigInt (of_int n) = Inr n"
  by (simp add: BigInt_def)

text \<open>
  The handler as a chain of its steps, each external call named by the function that
  builds it.
\<close>

lemma moveToken_steps:
  "moveToken P env input =
    (case privateKeyToAccount P (env ''PRIVATE_KEY'') of
       Inl e \<Rightarrow> ([], Inl e)
     | Inr acct \<Rightarrow>
        (case BigInt (amount input) of
           Inl e \<Rightarrow> ([], Inl e)
         | Inr amt \<Rightarrow>
            (case readContract P (balance_call env input acct) of
               Inl e \<Rightarrow> ([balance_call env input acct], Inl e)
             | Inr balance \<Rightarrow>
                if balance < amt
                then ([balance_call env input acct], Inr [TextContent (InsufficientText balance amt)])
                else
                  (case approveRouter P (approve_call env input acct amt) of
                     Inl e \<Rightarrow> ([balance_call env input acct, approve_call env input acct amt], Inl e)
                   | Inr u \<Rightarrow>
                      (case transferTokens P (send_call env input acct amt) of
                         Inl e \<Rightarrow>
                           ([balance_call env input acct, approve_call env input acct amt,
                             send_call env input acct amt], Inl e)
                       | Inr (txHash, messageId) \<Rightarrow>
                           ([balance_call env input acct, approve_call env input acct amt,
                             send_call env input acct amt],
                            Inr [TextContent (MovedText (amount input) (tokenAddress input)
                                   (destinationAccount input) txHash messageId)]))))))"
  by (simp add: moveToken_def Let_def balance_call_def approve_call_def send_call_def
           split: sum.splits prod.splits)

lemma is_send_calls [simp]:
  "\<not> is_send (balance_call env input acct)" "\<not> is_send (approve_call env input acct amt)"
  "is_send (send_call env input acct amt)"
  by (simp_all add: balance_call_def approve_call_def send_call_def)

lemma is_approve_calls [simp]:
  "\<not> is_approve (balance_call env input acct)" "is_approve (approve_call env input acct amt)"
  "\<not> is_approve (send_call env input acct amt)"
  by (simp_all add: balance_call_def approve_call_def send_call_def)

lemma is_read_calls [simp]:
  "is_read (balance_call env input acct)" "\<not> is_read (approve_call env input acct amt)"
  "\<not> is_read (send_call env input acct amt)"
  by (simp_all add: balance_call_def approve_call_def send_call_def)

text \<open>
  \<^verbatim>\<open>BigInt\<close> on a number that is not an integer.
\<close>

lemma BigInt_eleven_halves: "BigInt (11 / 2) = Inl (RangeError (11 / 2))"
proof -
  have "\<lfloor>11 / 2 :: rat\<rfloor> = 5"
    by (rule floor_unique) simp_all
  then show ?thesis by (simp add: BigInt_def)
qed

text \<open>
  Claim C1, as stated, fails: the schema admits any number, and for the amount 5.5,
  which is greater than the balance 3, the conversion of the amount throws before the
  balance is read; the handler makes no call and returns no response.
\<close>

theorem moveToken_fractional_amount_counterexample:
  "readContract (sample_providers (Inr 3) (Inr ()) (Inr (''0xhash'', ''0xmsg'')))
       (balance_call sample_env (sample_input (11 / 2)) (Account ''0xsender'')) = Inr 3
   \<and> of_int 3 < amount (sample_input (11 / 2))
   \<and> outcome_of (moveToken (sample_providers (Inr 3) (Inr ()) (Inr (''0xhash'', ''0xmsg''))) sample_env
        (sample_input (11 / 2))) = Inl (RangeError (11 / 2))
   \<and> calls_of (moveToken (sample_providers (Inr 3) (Inr ()) (Inr (''0xhash'', ''0xmsg''))) sample_env
        (sample_input (11 / 2))) = []"
  by (simp add: moveToken_steps outcome_of_def calls_of_def sample_providers_def sample_env_def
        sample_input_def BigInt_eleven_halves)

text \<open>
  Claim C1, amended. When the account is derived, the requested amount is the integer
  \<open>n\<close>, the balance read returns \<open>balance\<close> and \<open>balance < n\<close>, the handler
  returns the insufficient-balance text filled with the read balance and the requested
  amount, and the balance read is its only external call: no approval and no send.
\<close>

theorem moveToken_insufficient_balance:
  assumes "privateKeyToAccount P (env ''PRIVATE_KEY'') = Inr acct"
      and "amount input = of_int n"
      and "readContract P (balance_call env input acct) = Inr balance"
      and "balance < n"
  shows "outcome_of (moveToken P env input) = Inr [TextContent (InsufficientText balance n)]
       \<and> calls_of (moveToken P env input) = [balance_call env input acct]
       \<and> \<not> (\<exists>c \<in> set (calls_of (moveToken P env input)). is_approve c \<or> is_send c)"
  using assms
  by (simp add: moveToken_steps outcome_of_def calls_of_def BigInt_of_int)

text \<open>
  Claim C1, amended, at a balance of 3 and a requested amount of 5.
\<close>

theorem moveToken_insufficient_balance_witness:
  "outcome_of (moveToken (sample_providers (Inr 3) (Inr ()) (Inr (''0xhash'', ''0xmsg''))) sample_env (sample_input 5))
     = Inr [TextContent (InsufficientText 3 5)]
   \<and> calls_of (moveToken (sample_providers (Inr 3) (Inr ()) (Inr (''0xhash'', ''0xmsg''))) sample_env (sample_input 5))
     = [ReadContract \<lparr>pc_transport = Some ''https://rpc.example''\<rparr> ''0xabc'' ''balanceOf'' [''0xsender'']]"
  using moveToken_insufficient_balance
    [of "sample_providers (Inr 3) (Inr ()) (Inr (''0xhash'', ''0xmsg''))" sample_env "Account ''0xsender''"
        "sample_input 5" 5 3]
  by (simp add: sample_providers_def sample_env_def sample_input_def balance_call_def)

text \<open>
  Claim C2. When the balance covers the requested amount and both the approval and the
  send return, the handler returns the completion text carrying the transaction hash and
  the message identifier the send returned; its external calls are, in this order, the
  balance read, the approval (asked to wait for the receipt) and the send.
\<close>

theorem moveToken_completed:
  assumes "privateKeyToAccount P (env ''PRIVATE_KEY'') = Inr acct"
      and "amount input = of_int n"
      and "readContract P (balance_call env input acct) = Inr balance"
      and "n \<le> balance"
      and "approveRouter P (approve_call env input acct n) = Inr u"
      and "transferTokens P (send_call env input acct n) = Inr (txHash, messageId)"
  shows "outcome_of (moveToken P env input)
           = Inr [TextContent (MovedText (amount input) (tokenAddress input) (destinationAccount input) txHash messageId)]
       \<and> calls_of (moveToken P env input)
           = [ReadContract \<lparr>pc_transport = env ''RPC_URL''\<rparr> (tokenAddress input) ''balanceOf'' [address acct],
              ApproveRouter \<lparr>wc_transport = env ''RPC_URL'', wc_account = acct\<rparr> (env ''ROUTER_ADDRESS'')
                (tokenAddress input) n True,
              TransferTokens \<lparr>wc_transport = env ''RPC_URL'', wc_account = acct\<rparr> (env ''ROUTER_ADDRESS'')
                (tokenAddress input) n (destinationAccount input) (env ''DESTINATION_CHAIN_SELECTOR'')]"
  using assms
  by (simp add: moveToken_steps outcome_of_def calls_of_def BigInt_of_int)
     (simp add: balance_call_def approve_call_def send_call_def)

text \<open>
  Claim C2 at a balance of 10 and a requested amount of 5.
\<close>

theorem moveToken_completed_witness:
  "outcome_of (moveToken (sample_providers (Inr 10) (Inr ()) (Inr (''0xhash'', ''0xmsg''))) sample_env (sample_input 5))
     = Inr [TextContent (MovedText 5 ''0xabc'' ''0xdef'' ''0xhash'' ''0xmsg'')]
   \<and> calls_of (moveToken (sample_providers (Inr 10) (Inr ()) (Inr (''0xhash'', ''0xmsg''))) sample_env (sample_input 5))
     = [ReadContract \<lparr>pc_transport = Some ''https://rpc.example''\<rparr> ''0xabc'' ''balanceOf'' [''0xsender''],
        ApproveRouter \<lparr>wc_transport = Some ''https://rpc.example'', wc_account = Account ''0xsender''\<rparr>
          (Some ''0xrouter'') ''0xabc'' 5 True,
        TransferTokens \<lparr>wc_transport = Some ''https://rpc.example'', wc_account = Account ''0xsender''\<rparr>
          (Some ''0xrouter'') ''0xabc'' 5 ''0xdef'' (Some ''3478487238524512106'')]"
  using moveToken_completed
    [of "sample_providers (Inr 10) (Inr ()) (Inr (''0xhash'', ''0xmsg''))" sample_env "Account ''0xsender''"
        "sample_input 5" 5 10 "()" "''0xhash''" "''0xmsg''"]
  by (simp add: sample_providers_def sample_env_def sample_input_def)

text \<open>
  Claim C3. A run of the handler that makes a send call has read a balance that is not
  below the amount and has had its approval call return, both before the send; and a run
  whose approval call throws makes no send call.
\<close>

theorem moveToken_send_guarded:
  "((\<exists>c \<in> set (calls_of (moveToken P env input)). is_send c) \<longrightarrow>
      (\<exists>acct amt balance.
          privateKeyToAccount P (env ''PRIVATE_KEY'') = Inr acct
        \<and> BigInt (amount input) = Inr amt
        \<and> readContract P (balance_call env input acct) = Inr balance
        \<and> \<not> balance < amt
        \<and> approveRouter P (approve_call env input acct amt) = Inr ()
        \<and> calls_of (moveToken P env input)
            = [balance_call env input acct, approve_call env input acct amt, send_call env input acct amt]))
   \<and> ((\<exists>acct amt e.
          privateKeyToAccount P (env ''PRIVATE_KEY'') = Inr acct
        \<and> BigInt (amount input) = Inr amt
        \<and> approveRouter P (approve_call env input acct amt) = Inl e) \<longrightarrow>
        \<not> (\<exists>c \<in> set (calls_of (moveToken P env input)). is_send c))"
proof (intro conjI impI)
  assume sent: "\<exists>c \<in> set (calls_of (moveToken P env input)). is_send c"
  then obtain acct where pk: "privateKeyToAccount P (env ''PRIVATE_KEY'') = Inr acct"
    by (cases "privateKeyToAccount P (env ''PRIVATE_KEY'')")
       (auto simp add: moveToken_steps calls_of_def)
  from sent pk obtain amt where amt: "BigInt (amount input) = Inr amt"
    by (cases "BigInt (amount input)") (auto simp add: moveToken_steps calls_of_def)
  from sent pk amt obtain balance where bal: "readContract P (balance_call env input acct) = Inr balance"
    by (cases "readContract P (balance_call env input acct)") (auto simp add: moveToken_steps calls_of_def)
  from sent pk amt bal have guard: "\<not> balance < amt"
    by (auto simp add: moveToken_steps calls_of_def)
  from sent pk amt bal guard have appr: "approveRouter P (approve_call env input acct amt) = Inr ()"
    by (cases "approveRouter P (approve_call env input acct amt)") (auto simp add: moveToken_steps calls_of_def)
  from pk amt bal guard appr
  have "calls_of (moveToken P env input)
          = [balance_call env input acct, approve_call env input acct amt, send_call env input acct amt]"
    by (auto simp add: moveToken_steps calls_of_def split: sum.splits)
  with pk amt bal guard appr
  show "\<exists>acct amt balance.
          privateKeyToAccount P (env ''PRIVATE_KEY'') = Inr acct
        \<and> BigInt (amount input) = Inr amt
        \<and> readContract P (balance_call env input acct) = Inr balance
        \<and> \<not> balance < amt
        \<and> approveRouter P (approve_call env input acct amt) = Inr ()
        \<and> calls_of (moveToken P env input)
            = [balance_call env input acct, approve_call env input acct amt, send_call env input acct amt]"
    by blast
next
  assume "\<exists>acct amt e.
          privateKeyToAccount P (env ''PRIVATE_KEY'') = Inr acct
        \<and> BigInt (amount input) = Inr amt
        \<and> approveRouter P (approve_call env input acct amt) = Inl e"
  then obtain acct amt e where pk: "privateKeyToAccount P (env ''PRIVATE_KEY'') = Inr acct"
    and amt: "BigInt (amount input) = Inr amt"
    and appr: "approveRouter P (approve_call env input acct amt) = Inl e"
    by blast
  then show "\<not> (\<exists>c \<in> set (calls_of (moveToken P env input)). is_send c)"
    by (cases "readContract P (balance_call env input acct)")
       (auto simp add: moveToken_steps calls_of_def)
qed

text \<open>
  Claim C3 at a run that sends and at a run whose approval throws.
\<close>

theorem moveToken_send_guarded_witness:
  "(\<exists>c \<in> set (calls_of (moveToken (sample_providers (Inr 10) (Inr ()) (Inr (''0xhash'', ''0xmsg'')))
        sample_env (sample_input 5))). is_send c)
   \<and> (\<exists>acct amt balance.
          privateKeyToAccount (sample_providers (Inr 10) (Inr ()) (Inr (''0xhash'', ''0xmsg''))) (sample_env ''PRIVATE_KEY'') = Inr acct
        \<and> BigInt (amount (sample_input 5)) = Inr amt
        \<and> readContract (sample_providers (Inr 10) (Inr ()) (Inr (''0xhash'', ''0xmsg''))) (balance_call sample_env (sample_input 5) acct) = Inr balance
        \<and> \<not> balance < amt
        \<and> approveRouter (sample_providers (Inr 10) (Inr ()) (Inr (''0xhash'', ''0xmsg''))) (approve_call sample_env (sample_input 5) acct amt) = Inr ())
   \<and> approveRouter (sample_providers (Inr 10) (Inl (Error ''approval reverted'')) (Inr (''0xhash'', ''0xmsg'')))
        (approve_call sample_env (sample_input 5) (Account ''0xsender'') 5) = Inl (Error ''approval reverted'')
   \<and> \<not> (\<exists>c \<in> set (calls_of (moveToken (sample_providers (Inr 10) (Inl (Error ''approval reverted'')) (Inr (''0xhash'', ''0xmsg'')))
        sample_env (sample_input 5))). is_send c)"
proof -
  let ?P1 = "sample_providers (Inr 10) (Inr ()) (Inr (''0xhash'', ''0xmsg''))"
  let ?P2 = "sample_providers (Inr 10) (Inl (Error ''approval reverted'')) (Inr (''0xhash'', ''0xmsg''))"
  have sent: "\<exists>c \<in> set (calls_of (moveToken ?P1 sample_env (sample_input 5))). is_send c"
    by (simp add: moveToken_steps calls_of_def sample_providers_def sample_env_def sample_input_def BigInt_def)
  have pk: "privateKeyToAccount ?P2 (sample_env ''PRIVATE_KEY'') = Inr (Account ''0xsender'')"
    by (simp add: sample_providers_def sample_env_def)
  have amt: "BigInt (amount (sample_input 5)) = Inr 5"
    by (simp add: sample_input_def BigInt_def)
  have appr: "approveRouter ?P2 (approve_call sample_env (sample_input 5) (Account ''0xsender'') 5)
                = Inl (Error ''approval reverted'')"
    by (simp add: sample_providers_def)
  from moveToken_send_guarded [of ?P1 sample_env "sample_input 5"] sent
  have one: "\<exists>acct amt balance.
          privateKeyToAccount ?P1 (sample_env ''PRIVATE_KEY'') = Inr acct
        \<and> BigInt (amount (sample_input 5)) = Inr amt
        \<and> readContract ?P1 (balance_call sample_env (sample_input 5) acct) = Inr balance
        \<and> \<not> balance < amt
        \<and> approveRouter ?P1 (approve_call sample_env (sample_input 5) acct amt) = Inr ()"
    by blast
  from moveToken_send_guarded [of ?P2 sample_env "sample_input 5"] pk amt appr
  have two: "\<not> (\<exists>c \<in> set (calls_of (moveToken ?P2 sample_env (sample_input 5))). is_send c)"
    by blast
  from sent one appr two show ?thesis by blast
qed

text \<open>
  Claim C4, as stated, fails: when the balance read throws, what leaves the handler is
  the thrown exception itself (the left injection), not a response.
\<close>

theorem moveToken_failure_counterexample:
  "outcome_of (moveToken (sample_providers (Inl (Thrown ''HttpRequestError'' ''HTTP request failed.'')) (Inr ())
       (Inr (''0xhash'', ''0xmsg''))) sample_env (sample_input 5))
     = Inl (Thrown ''HttpRequestError'' ''HTTP request failed.'')
   \<and> calls_of (moveToken (sample_providers (Inl (Thrown ''HttpRequestError'' ''HTTP request failed.'')) (Inr ())
       (Inr (''0xhash'', ''0xmsg''))) sample_env (sample_input 5))
     = [ReadContract \<lparr>pc_transport = Some ''https://rpc.example''\<rparr> ''0xabc'' ''balanceOf'' [''0xsender'']]"
  by (simp add: moveToken_steps outcome_of_def calls_of_def sample_providers_def sample_env_def
        sample_input_def BigInt_def balance_call_def)

text \<open>
  Claim C4, amended. An exception thrown by the balance read, by the approval or by the
  send leaves the handler unchanged, as that exception, after exactly the calls made up
  to the throwing one; and no run makes any of the three calls more than once.
\<close>

theorem moveToken_exception_propagates:
  "(privateKeyToAccount P (env ''PRIVATE_KEY'') = Inr acct \<and> BigInt (amount input) = Inr amt
      \<and> readContract P (balance_call env input acct) = Inl e
    \<longrightarrow> outcome_of (moveToken P env input) = Inl e
        \<and> calls_of (moveToken P env input) = [balance_call env input acct])
 \<and> (privateKeyToAccount P (env ''PRIVATE_KEY'') = Inr acct \<and> BigInt (amount input) = Inr amt
      \<and> readContract P (balance_call env input acct) = Inr balance \<and> \<not> balance < amt
      \<and> approveRouter P (approve_call env input acct amt) = Inl e
    \<longrightarrow> outcome_of (moveToken P env input) = Inl e
        \<and> calls_of (moveToken P env input) = [balance_call env input acct, approve_call env input acct amt])
 \<and> (privateKeyToAccount P (env ''PRIVATE_KEY'') = Inr acct \<and> BigInt (amount input) = Inr amt
      \<and> readContract P (balance_call env input acct) = Inr balance \<and> \<not> balance < amt
      \<and> approveRouter P (approve_call env input acct amt) = Inr u
      \<and> transferTokens P (send_call env input acct amt) = Inl e
    \<longrightarrow> outcome_of (moveToken P env input) = Inl e
        \<and> calls_of (moveToken P env input)
            = [balance_call env input acct, approve_call env input acct amt, send_call env input acct amt])
 \<and> length (filter is_read (calls_of (moveToken P env input))) \<le> 1
 \<and> length (filter is_approve (calls_of (moveToken P env input))) \<le> 1
 \<and> length (filter is_send (calls_of (moveToken P env input))) \<le> 1"
proof -
  have shape: "calls_of (moveToken P env input) = []
      \<or> (\<exists>a. calls_of (moveToken P env input) = [balance_call env input a])
      \<or> (\<exists>a n. calls_of (moveToken P env input) = [balance_call env input a, approve_call env input a n])
      \<or> (\<exists>a n. calls_of (moveToken P env input)
                   = [balance_call env input a, approve_call env input a n, send_call env input a n])"
    by (auto simp add: moveToken_steps calls_of_def split: sum.splits)
  then have once: "length (filter is_read (calls_of (moveToken P env input))) \<le> 1
      \<and> length (filter is_approve (calls_of (moveToken P env input))) \<le> 1
      \<and> length (filter is_send (calls_of (moveToken P env input))) \<le> 1"
    by auto
  have thrown: "privateKeyToAccount P (env ''PRIVATE_KEY'') = Inr acct \<Longrightarrow> BigInt (amount input) = Inr amt \<Longrightarrow>
      (readContract P (balance_call env input acct) = Inl e
        \<longrightarrow> outcome_of (moveToken P env input) = Inl e
          \<and> calls_of (moveToken P env input) = [balance_call env input acct])
    \<and> (readContract P (balance_call env input acct) = Inr balance \<and> \<not> balance < amt
        \<and> approveRouter P (approve_call env input acct amt) = Inl e
        \<longrightarrow> outcome_of (moveToken P env input) = Inl e
          \<and> calls_of (moveToken P env input) = [balance_call env input acct, approve_call env input acct amt])
    \<and> (readContract P (balance_call env input acct) = Inr balance \<and> \<not> balance < amt
        \<and> approveRouter P (approve_call env input acct amt) = Inr u
        \<and> transferTokens P (send_call env input acct amt) = Inl e
        \<longrightarrow> outcome_of (moveToken P env input) = Inl e
          \<and> calls_of (moveToken P env input)
              = [balance_call env input acct, approve_call env input acct amt, send_call env input acct amt])"
    by (simp add: moveToken_steps calls_of_def outcome_of_def)
  from once thrown show ?thesis by blast
qed

text \<open>
  Claim C4, amended, at a run whose approval throws.
\<close>

theorem moveToken_exception_propagates_witness:
  "approveRouter (sample_providers (Inr 10) (Inl (Error ''approval reverted'')) (Inr (''0xhash'', ''0xmsg'')))
        (approve_call sample_env (sample_input 5) (Account ''0xsender'') 5) = Inl (Error ''approval reverted'')
   \<and> outcome_of (moveToken (sample_providers (Inr 10) (Inl (Error ''approval reverted'')) (Inr (''0xhash'', ''0xmsg'')))
        sample_env (sample_input 5)) = Inl (Error ''approval reverted'')
   \<and> calls_of (moveToken (sample_providers (Inr 10) (Inl (Error ''approval reverted'')) (Inr (''0xhash'', ''0xmsg'')))
        sample_env (sample_input 5))
       = [balance_call sample_env (sample_input 5) (Account ''0xsender''),
          approve_call sample_env (sample_input 5) (Account ''0xsender'') 5]"
proof -
  let ?P = "sample_providers (Inr 10) (Inl (Error ''approval reverted'')) (Inr (''0xhash'', ''0xmsg''))"
  have pk: "privateKeyToAccount ?P (sample_env ''PRIVATE_KEY'') = Inr (Account ''0xsender'')"
    by (simp add: sample_providers_def sample_env_def)
  have amt: "BigInt (amount (sample_input 5)) = Inr 5"
    by (simp add: sample_input_def BigInt_def)
  have bal: "readContract ?P (balance_call sample_env (sample_input 5) (Account ''0xsender'')) = Inr 10"
    by (simp add: sample_providers_def)
  have appr: "approveRouter ?P (approve_call sample_env (sample_input 5) (Account ''0xsender'') 5)
                = Inl (Error ''approval reverted'')"
    by (simp add: sample_providers_def)
  from moveToken_exception_propagates
         [of ?P sample_env "Account ''0xsender''" "sample_input 5" 5 "Error ''approval reverted''" 10]
       pk amt bal appr
  show ?thesis by simp
qed

text \<open>
  Claim C5. For a negative integer amount \<open>n\<close> and a balance that is not negative,
  the guard \<open>balance < n\<close> is false, the handler does not answer with the
  insufficient-balance text, its second call is the approval with the amount \<open>n\<close>,
  and once that approval returns its third call is the send with the amount \<open>n\<close>.
\<close>

theorem moveToken_negative_amount:
  assumes "privateKeyToAccount P (env ''PRIVATE_KEY'') = Inr acct"
      and "amount input = of_int n"
      and "n < 0"
      and "readContract P (balance_call env input acct) = Inr balance"
      and "0 \<le> balance"
  shows "\<not> balance < n
       \<and> outcome_of (moveToken P env input) \<noteq> Inr [TextContent (InsufficientText balance n)]
       \<and> take 2 (calls_of (moveToken P env input))
           = [balance_call env input acct,
              ApproveRouter \<lparr>wc_transport = env ''RPC_URL'', wc_account = acct\<rparr> (env ''ROUTER_ADDRESS'')
                (tokenAddress input) n True]
       \<and> (approveRouter P (approve_call env input acct n) = Inr u \<longrightarrow>
            calls_of (moveToken P env input)
              = [balance_call env input acct, approve_call env input acct n,
                 TransferTokens \<lparr>wc_transport = env ''RPC_URL'', wc_account = acct\<rparr> (env ''ROUTER_ADDRESS'')
                   (tokenAddress input) n (destinationAccount input) (env ''DESTINATION_CHAIN_SELECTOR'')])"
  using assms
  by (auto simp add: moveToken_steps calls_of_def outcome_of_def BigInt_of_int approve_call_def send_call_def
       split: sum.splits)

text \<open>
  Claim C5 at the amount -5 and a balance of 3.
\<close>

theorem moveToken_negative_amount_witness:
  "\<not> (3::int) < - 5
   \<and> calls_of (moveToken (sample_providers (Inr 3) (Inr ()) (Inr (''0xhash'', ''0xmsg''))) sample_env (sample_input (- 5)))
     = [ReadContract \<lparr>pc_transport = Some ''https://rpc.example''\<rparr> ''0xabc'' ''balanceOf'' [''0xsender''],
        ApproveRouter \<lparr>wc_transport = Some ''https://rpc.example'', wc_account = Account ''0xsender''\<rparr>
          (Some ''0xrouter'') ''0xabc'' (- 5) True,
        TransferTokens \<lparr>wc_transport = Some ''https://rpc.example'', wc_account = Account ''0xsender''\<rparr>
          (Some ''0xrouter'') ''0xabc'' (- 5) ''0xdef'' (Some ''3478487238524512106'')]"
  using moveToken_negative_amount
    [of "sample_providers (Inr 3) (Inr ()) (Inr (''0xhash'', ''0xmsg''))" sample_env "Account ''0xsender''"
        "sample_input (- 5)" "- 5" 3 "()"]
  by (simp add: sample_providers_def sample_env_def sample_input_def balance_call_def approve_call_def)

section \<open>Properties of the conversational driver\<close>

subsection \<open>Auxiliary facts about strings and the reply grammar\<close>

lemma first_line_idem: "first_line (first_line s) = first_line s"
  by (simp add: first_line_def takeWhile_idem)

lemma parse_tool_command_first_line:
  "parse_tool_command (first_line s) = parse_tool_command s"
  by (simp add: parse_tool_command_def first_line_idem)

lemma prefix_takeWhile:
  "\<forall>c \<in> set p. Q c \<Longrightarrow> prefix p (takeWhile Q s) = prefix p s"
proof (induction p arbitrary: s)
  case Nil
  then show ?case by simp
next
  case (Cons a p)
  show ?case
  proof (cases s)
    case Nil
    then show ?thesis by simp
  next
    case (Cons b s')
    with Cons.prems Cons.IH [of s'] show ?thesis by auto
  qed
qed

lemma prefix_marker_first_line:
  "prefix ''TOOL:'' (first_line s) = prefix ''TOOL:'' s"
  unfolding first_line_def by (rule prefix_takeWhile) (simp add: nl_def)

lemma turn_calls_shape:
  "ext_calls (turn E h a) = []
   \<or> (\<exists>p. ext_calls (turn E h a) = [LLMCall p])
   \<or> (\<exists>p n args. ext_calls (turn E h a) = [LLMCall p, ToolCall n args])
   \<or> (\<exists>p n args q. ext_calls (turn E h a) = [LLMCall p, ToolCall n args, LLMCall (q @ follow_up_instruction)])"
  by (simp add: turn_def Let_def split: sum.splits)


lemma is_word_facts:
  "\<not> is_word (CHR 0x20)" "\<not> is_word (CHR ''('')" "\<not> is_word (CHR '':'')" "\<not> is_word nl"
  by (simp_all add: is_word_def nl_def)

lemma is_word_not_space: "is_word c \<Longrightarrow> \<not> is_space c"
  by (auto simp add: is_word_def is_space_def)

lemma is_word_not_nl: "is_word c \<Longrightarrow> c \<noteq> nl"
  using is_word_facts(4) by blast

lemma is_word_not_blank: "is_word c \<Longrightarrow> c \<noteq> CHR 0x20"
  using is_word_facts(1) by blast

lemma is_space_facts:
  "is_space (CHR 0x20)" "\<not> is_space (CHR ''{'')" "\<not> is_space (CHR ''}'')" "\<not> is_space (CHR '')'')"
  by (simp_all add: is_space_def)

lemma dropWhile_rev_last:
  "xs \<noteq> [] \<Longrightarrow> \<not> P (last xs) \<Longrightarrow> dropWhile P (rev xs) = rev xs"
  by (cases xs rule: rev_cases) simp_all

lemma trim_id:
  assumes "s \<noteq> []" "\<not> is_space (hd s)" "\<not> is_space (last s)"
  shows "trim s = s"
proof -
  from assms have "dropWhile is_space s = s"
    by (cases s) simp_all
  with assms show ?thesis by (simp add: trim_def dropWhile_rev_last)
qed

lemma trim_blank: "trim (CHR 0x20 # s) = trim s"
  by (simp add: trim_def is_space_facts)

lemma takeWhile_run:
  "\<forall>c \<in> set xs. P c \<Longrightarrow> \<not> P y \<Longrightarrow> takeWhile P (xs @ y # ys) = xs"
  by simp

lemma dropWhile_run:
  "\<forall>c \<in> set xs. P c \<Longrightarrow> \<not> P y \<Longrightarrow> dropWhile P (xs @ y # ys) = y # ys"
  by simp

lemma first_line_no_nl: "nl \<notin> set s \<Longrightarrow> first_line s = s"
  unfolding first_line_def by simp blast

lemma line_terminator_nl: "is_line_terminator nl"
  by (simp add: is_line_terminator_def nl_def)

lemma parse_tool_command_rest:
  assumes "first_line s = s" and "trim (drop 5 s) = rest"
  shows "parse_tool_command s =
           (case parenMatch rest of
              Some (g1, g2) \<Rightarrow> (g1, g2)
            | None \<Rightarrow>
               if CHR 0x20 \<in> set rest
               then (takeWhile (\<lambda>c. c \<noteq> CHR 0x20) rest,
                     trim (drop 1 (dropWhile (\<lambda>c. c \<noteq> CHR 0x20) rest)))
               else (rest, []))"
  using assms by (simp add: parse_tool_command_def)

lemma parse_space_form:
  assumes n: "name \<noteq> []" "\<forall>c \<in> set name. is_word c"
      and p: "p \<noteq> []" "hd p = CHR ''{''" "last p = CHR ''}''" "\<forall>c \<in> set p. \<not> is_line_terminator c"
  shows "parse_tool_command (''TOOL: '' @ name @ '' '' @ p) = (name, p)"
proof -
  let ?rest = "name @ CHR 0x20 # p"
  have nonl: "nl \<notin> set (''TOOL: '' @ name @ '' '' @ p)"
    using n p is_word_not_nl line_terminator_nl by (auto simp add: nl_def)
  have fl: "first_line (''TOOL: '' @ name @ '' '' @ p) = ''TOOL: '' @ name @ '' '' @ p"
    by (rule first_line_no_nl [OF nonl])
  have hd_rest: "hd ?rest = hd name" using n by (cases name) simp_all
  have last_rest: "last ?rest = last p" using p by simp
  have "trim ?rest = ?rest"
    using n p hd_rest last_rest is_word_not_space [of "hd name"] is_space_facts
    by (intro trim_id) (auto simp add: hd_in_set)
  then have rest: "trim (drop 5 (''TOOL: '' @ name @ '' '' @ p)) = ?rest"
    by (simp add: trim_blank)
  have tw: "takeWhile is_word ?rest = name" "dropWhile is_word ?rest = CHR 0x20 # p"
    using n is_word_facts by (simp_all add: takeWhile_run dropWhile_run)
  have pm: "parenMatch ?rest = None"
    using n by (simp add: parenMatch_def tw)
  have sp: "takeWhile (\<lambda>c. c \<noteq> CHR 0x20) ?rest = name"
           "dropWhile (\<lambda>c. c \<noteq> CHR 0x20) ?rest = CHR 0x20 # p"
    using n is_word_not_blank by (simp_all add: takeWhile_run dropWhile_run)
  have tp: "trim p = p"
    using p is_space_facts by (intro trim_id) auto
  show ?thesis
    unfolding parse_tool_command_rest [OF fl rest] pm sp
    by (simp add: tp)
qed

lemma parse_paren_form:
  assumes n: "name \<noteq> []" "\<forall>c \<in> set name. is_word c"
      and p: "p \<noteq> []" "hd p = CHR ''{''" "last p = CHR ''}''" "\<forall>c \<in> set p. \<not> is_line_terminator c"
  shows "parse_tool_command (''TOOL: '' @ name @ ''('' @ p @ '')'') = (name, p)"
proof -
  let ?rest = "name @ CHR ''('' # p @ '')''"
  have nonl: "nl \<notin> set (''TOOL: '' @ name @ ''('' @ p @ '')'')"
    using n p is_word_not_nl line_terminator_nl by (auto simp add: nl_def)
  have fl: "first_line (''TOOL: '' @ name @ ''('' @ p @ '')'') = ''TOOL: '' @ name @ ''('' @ p @ '')''"
    by (rule first_line_no_nl [OF nonl])
  have hd_rest: "hd ?rest = hd name" using n by (cases name) simp_all
  have "trim ?rest = ?rest"
    using n hd_rest is_word_not_space [of "hd name"] is_space_facts
    by (intro trim_id) (auto simp add: hd_in_set)
  then have rest: "trim (drop 5 (''TOOL: '' @ name @ ''('' @ p @ '')'')) = ?rest"
    by (simp add: trim_blank)
  have tw: "takeWhile is_word ?rest = name" "dropWhile is_word ?rest = CHR ''('' # p @ '')''"
    using n is_word_facts by (simp_all add: takeWhile_run dropWhile_run)
  have d1: "dropWhile is_space (p @ '')'') = p @ '')''"
    using p is_space_facts by (cases p) simp_all
  have d2: "dropWhile is_space (rev p) = rev p"
    using p is_space_facts by (simp add: dropWhile_rev_last)
  have len: "2 \<le> length p"
  proof (cases p)
    case Nil
    with p show ?thesis by simp
  next
    case (Cons a q)
    with p have "q \<noteq> []" by auto
    with Cons show ?thesis by (cases q) simp_all
  qed
  have pm: "parenMatch ?rest = Some (name, p)"
    using n p len by (simp add: parenMatch_def tw d1 d2 Let_def is_space_facts)
  show ?thesis
    unfolding parse_tool_command_rest [OF fl rest] pm
    by simp
qed

subsection \<open>Auxiliary facts about the scrape and the turn\<close>

text \<open>
  The two expressions on sample texts: the parenthesised form with and without white
  space, a text that goes on after the closing parenthesis, a payload that spans a
  carriage return; and the key and value matches of a text with unquoted keys.
\<close>

lemma parenMatch_examples:
  "parenMatch ''ping({})'' = Some (''ping'', ''{}'')"
  "parenMatch ''ping(  {a b}  )'' = Some (''ping'', ''{a b}'')"
  "parenMatch ''ping({}) and more'' = None"
  "parenMatch ''ping {}'' = None"
  "parenMatch ''({})'' = None"
  "parenMatch ''ping({)'' = None"
  "parenMatch (''ping({'' @ [CHR 0x0D] @ ''})'') = None"
  by code_simp+

lemma match_global_examples:
  "match_global 0 unquoted_payload = [''tokenAddress: '' @ [dq] @ ''0xabc'' @ [dq], ''amount: 5'']"
  "match_global 0 example_payload = []"
  "match_first ''amount: 5'' = Some (Digits ''amount'' ''5'')"
  "match_first (''to:'' @ [dq] @ ''0xdef'' @ [dq]) = Some (Quoted ''to'' ''0xdef'')"
  "match_first (''to:'' @ [dq, dq]) = None"
  by code_simp+

lemma put_member_values:
  "P v \<Longrightarrow> \<forall>(k, x) \<in> set obj. P x \<Longrightarrow> \<forall>(k, x) \<in> set (put_member key v obj). P x"
  by (induction obj) (auto split: if_splits)

lemma assign_property_values:
  "P v \<Longrightarrow> \<forall>(k, x) \<in> set obj. P x \<Longrightarrow> \<forall>(k, x) \<in> set (assign_property key v obj). P x"
  using put_member_values [of P v obj key] by (simp add: assign_property_def)

lemma parseInt_scraped: "is_scraped_value (JNumber (parseInt ds))"
  by (simp add: parseInt_def)

lemma extract_entry_values:
  assumes "\<forall>(k, x) \<in> set obj. is_scraped_value x"
  shows "\<forall>(k, x) \<in> set (extract_entry obj m). is_scraped_value x"
proof (cases "match_first m")
  case None
  with assms show ?thesis by (simp add: extract_entry_def)
next
  case (Some g)
  show ?thesis
  proof (cases g)
    case (Quoted g1 g2)
    with Some assms assign_property_values [of is_scraped_value "JString g2" obj g1]
    show ?thesis by (simp add: extract_entry_def)
  next
    case (Digits g3 g4)
    with Some assms assign_property_values [of is_scraped_value "JNumber (parseInt g4)" obj g3]
      parseInt_scraped [of g4]
    show ?thesis by (simp add: extract_entry_def)
  qed
qed

lemma foldl_extract_values:
  "\<forall>(k, x) \<in> set obj. is_scraped_value x \<Longrightarrow>
   \<forall>(k, x) \<in> set (foldl extract_entry obj ms). is_scraped_value x"
proof (induction ms arbitrary: obj)
  case Nil
  then show ?case by simp
next
  case (Cons m ms)
  from Cons.IH [OF extract_entry_values [OF Cons.prems]] show ?case by simp
qed

lemma manual_extract_Nil: "manual_extract [] = None"
  by (simp add: manual_extract_def)

lemma manual_extract_values:
  assumes "manual_extract s = Some obj"
  shows "\<exists>ps. obj = JObject ps \<and> (\<forall>(k, x) \<in> set ps. is_scraped_value x)"
proof -
  from assms have "obj = JObject (foldl extract_entry [] (match_global 0 s))"
    by (auto simp add: manual_extract_def Let_def split: if_splits list.splits)
  moreover have "\<forall>(k, x) \<in> set (foldl extract_entry [] (match_global 0 s)). is_scraped_value x"
    by (rule foldl_extract_values) simp
  ultimately show ?thesis by blast
qed

text \<open>
  The turn once the first completion has returned a reply.
\<close>

lemma turn_reply:
  assumes "toLowerCase (trim answer) \<noteq> ''exit''"
      and "callLLM E (join [nl] (history @ [''User: '' @ trim answer])) = Inr llmReply"
  shows "turn E history answer =
     (let history1 = history @ [''User: '' @ trim answer];
          conversationText = join [nl] history1
      in if prefix ''TOOL:'' llmReply then
           (let toolName = fst (parse_tool_command llmReply);
                args = parse_args (JSON_parse E) (snd (parse_tool_command llmReply))
            in case callToolWithTimeout E toolName args default_tool_timeout_ms of
                 Inl err \<Rightarrow>
                   \<lparr>ext_calls = [LLMCall conversationText, ToolCall toolName args],
                    history_after = history1, control = Break\<rparr>
               | Inr toolResult \<Rightarrow>
                  (let history2 = history1 @ [''Tool result for '' @ toolName @ '': '' @ join [nl] toolResult];
                       followUpPrompt = join [nl] history2 @ follow_up_instruction
                   in case callLLM E followUpPrompt of
                        Inl err \<Rightarrow>
                          \<lparr>ext_calls = [LLMCall conversationText, ToolCall toolName args, LLMCall followUpPrompt],
                           history_after = history2, control = Break\<rparr>
                      | Inr followUp \<Rightarrow>
                          \<lparr>ext_calls = [LLMCall conversationText, ToolCall toolName args, LLMCall followUpPrompt],
                           history_after = history2 @ [if prefix ''TOOL:'' followUp then canned_completion
                                                        else ''Assistant: '' @ followUp],
                           control = Continue\<rparr>))
         else \<lparr>ext_calls = [LLMCall conversationText],
               history_after = history1 @ [''Assistant: '' @ llmReply],
               control = Continue\<rparr>)"
  using assms by (simp add: turn_def Let_def split: sum.splits)

lemma turn_tool_calls_le: "length (filter is_tool_call (ext_calls (turn E history answer))) \<le> 1"
  using turn_calls_shape [of E history answer] by auto

lemma main_loop_tool_calls_le:
  "length (filter is_tool_call (fst (main_loop E history answers))) \<le> length answers"
proof (induction answers arbitrary: history)
  case Nil
  then show ?case by simp
next
  case (Cons a answers)
  show ?case
  proof (cases "control (turn E history a)")
    case Continue
    with Cons.IH [of "history_after (turn E history a)"] turn_tool_calls_le [of E history a]
    show ?thesis by (simp add: Let_def)
  next
    case Break
    with turn_tool_calls_le [of E history a] show ?thesis by (simp add: Let_def)
  qed
qed

lemma scripted_callLLM:
  "callLLM (scripted_client llm tool) p = Inr (llm p)"
  by (simp add: callLLM_def scripted_client_def llm_response_def llm_abort_ms_def)

lemma scripted_callTool:
  "callToolWithTimeout (scripted_client llm (Settles 5 (Inr r))) n a default_tool_timeout_ms = Inr r"
  by (simp add: callToolWithTimeout_def scripted_client_def default_tool_timeout_ms_def)

lemma scripted_JSON_parse: "JSON_parse (scripted_client llm tool) = json_parse"
  by (simp add: scripted_client_def)

subsection \<open>Tool-invocation detection\<close>

text \<open>
  Claim C6, as stated, fails: a reply that consists of the marker alone is dispatched,
  with the empty tool name and the empty object as arguments, and so is a reply that
  names a tool and carries no payload.
\<close>

theorem tool_dispatch_counterexample:
  "ext_calls (turn (scripted_client (\<lambda>p. ''TOOL:'') (Settles 5 (Inr [''Hello, world!!'']))) [] ''hi'') ! 1
     = ToolCall [] (JObject [])
   \<and> parse_tool_command ''TOOL:'' = ([], [])
   \<and> ext_calls (turn (scripted_client (\<lambda>p. ''TOOL: helloWorld'') (Settles 5 (Inr [''Hello, world!!'']))) [] ''hi'') ! 1
     = ToolCall ''helloWorld'' (JObject [])
   \<and> parse_tool_command ''TOOL: helloWorld'' = (''helloWorld'', [])"
proof -
  have ex: "toLowerCase (trim ''hi'') \<noteq> ''exit''"
    by (simp add: toLowerCase_def trim_def is_space_def)
  have p1: "parse_tool_command ''TOOL:'' = ([], [])"
    by code_simp
  have p2: "parse_tool_command ''TOOL: helloWorld'' = (''helloWorld'', [])"
    by code_simp
  have a: "parse_args json_parse [] = JObject []"
    by (simp add: parse_args_def)
  show ?thesis
    by (simp add: turn_reply [OF ex scripted_callLLM] scripted_callLLM scripted_callTool
          scripted_JSON_parse p1 p2 a Let_def)
qed

text \<open>
  Claim C6, amended. Once the first completion has returned a reply, a tool is dispatched
  in the turn if and only if the first line of the reply begins with the marker; the tool
  name and the arguments dispatched are read from the first line alone and either may be
  empty; a reply without the leading marker is appended to the transcript as the
  assistant's utterance and nothing is dispatched; and a reply whose first line is the
  example line yields the tool name moveToken and the three arguments of the example.
\<close>

theorem tool_dispatch_by_marker:
  assumes "toLowerCase (trim answer) \<noteq> ''exit''"
      and "callLLM E (join [nl] (history @ [''User: '' @ trim answer])) = Inr llmReply"
  shows "((\<exists>c \<in> set (ext_calls (turn E history answer)). is_tool_call c)
            \<longleftrightarrow> prefix ''TOOL:'' (first_line llmReply))
       \<and> (prefix ''TOOL:'' (first_line llmReply) \<longrightarrow>
            ext_calls (turn E history answer) ! 1
              = ToolCall (fst (parse_tool_command (first_line llmReply)))
                         (parse_args (JSON_parse E) (snd (parse_tool_command (first_line llmReply)))))
       \<and> (\<not> prefix ''TOOL:'' (first_line llmReply) \<longrightarrow>
            ext_calls (turn E history answer) = [LLMCall (join [nl] (history @ [''User: '' @ trim answer]))]
          \<and> history_after (turn E history answer)
              = history @ [''User: '' @ trim answer, ''Assistant: '' @ llmReply])
       \<and> (first_line llmReply = example_line \<longrightarrow>
            parse_tool_command llmReply = (''moveToken'', example_payload)
          \<and> parse_args json_parse (snd (parse_tool_command llmReply))
              = JObject [(''tokenAddress'', JString ''0xabc''), (''amount'', JNumber 5),
                         (''destinationAccount'', JString ''0xdef'')])"
proof -
  have ex1: "parse_tool_command example_line = (''moveToken'', example_payload)"
    by code_simp
  have ex2: "parse_args json_parse example_payload
              = JObject [(''tokenAddress'', JString ''0xabc''), (''amount'', JNumber 5),
                         (''destinationAccount'', JString ''0xdef'')]"
    by code_simp
  have ex: "first_line llmReply = example_line \<Longrightarrow> parse_tool_command llmReply = (''moveToken'', example_payload)"
    using parse_tool_command_first_line [of llmReply] ex1 by simp
  show ?thesis
    unfolding prefix_marker_first_line parse_tool_command_first_line turn_reply [OF assms]
    using ex ex2
    by (auto simp add: Let_def split: sum.splits)
qed

text \<open>
  Claim C6, amended, at a reply whose first line is the example line and whose second line
  is prose, and at a reply without the marker.
\<close>

theorem tool_dispatch_by_marker_witness:
  "ext_calls (turn (scripted_client (\<lambda>p. example_line @ [nl] @ ''The transfer is on its way.'')
                      (Settles 5 (Inr [''ok'']))) [] ''move my tokens'') ! 1
     = ToolCall ''moveToken'' (JObject [(''tokenAddress'', JString ''0xabc''), (''amount'', JNumber 5),
                                        (''destinationAccount'', JString ''0xdef'')])
   \<and> ext_calls (turn (scripted_client (\<lambda>p. ''It is noon.'') (Settles 5 (Inr [''ok'']))) [] ''What time is it?'')
     = [LLMCall ''User: What time is it?'']
   \<and> history_after (turn (scripted_client (\<lambda>p. ''It is noon.'') (Settles 5 (Inr [''ok'']))) [] ''What time is it?'')
     = [''User: What time is it?'', ''Assistant: It is noon.'']"
proof -
  let ?reply = "example_line @ [nl] @ ''The transfer is on its way.''"
  let ?E = "scripted_client (\<lambda>p. ?reply) (Settles 5 (Inr [''ok'']))"
  let ?F = "scripted_client (\<lambda>p. ''It is noon.'') (Settles 5 (Inr [''ok'']))"
  have ex: "toLowerCase (trim ''move my tokens'') \<noteq> ''exit''"
    by (simp add: toLowerCase_def trim_def is_space_def)
  have fl: "first_line ?reply = example_line"
    by code_simp
  have mk: "prefix ''TOOL:'' example_line"
    by (simp add: example_line_def)
  have p1: "parse_tool_command example_line = (''moveToken'', example_payload)"
    by code_simp
  have p2: "parse_args json_parse example_payload
              = JObject [(''tokenAddress'', JString ''0xabc''), (''amount'', JNumber 5),
                         (''destinationAccount'', JString ''0xdef'')]"
    by code_simp
  have one: "ext_calls (turn ?E [] ''move my tokens'') ! 1
     = ToolCall ''moveToken'' (JObject [(''tokenAddress'', JString ''0xabc''), (''amount'', JNumber 5),
                                        (''destinationAccount'', JString ''0xdef'')])"
    using tool_dispatch_by_marker [OF ex scripted_callLLM, of "\<lambda>p. ?reply" "Settles 5 (Inr [''ok''])" "[]"]
    by (simp only: fl mk p1 p2 scripted_JSON_parse fst_conv snd_conv simp_thms)
  have ex': "toLowerCase (trim ''What time is it?'') \<noteq> ''exit''"
    by (simp add: toLowerCase_def trim_def is_space_def)
  have tr: "trim ''What time is it?'' = ''What time is it?''"
    by (simp add: trim_def is_space_def)
  have nm: "\<not> prefix ''TOOL:'' (first_line ''It is noon.'')"
    by (simp add: first_line_def nl_def)
  have two: "ext_calls (turn ?F [] ''What time is it?'') = [LLMCall ''User: What time is it?'']
           \<and> history_after (turn ?F [] ''What time is it?'')
               = [''User: What time is it?'', ''Assistant: It is noon.'']"
    using tool_dispatch_by_marker [OF ex' scripted_callLLM, of "\<lambda>p. ''It is noon.''" "Settles 5 (Inr [''ok''])" "[]"] nm
    by (simp add: tr)
  from one two show ?thesis by simp
qed

subsection \<open>Argument parsing\<close>

text \<open>
  Claim C7. Both surface forms, a name of word characters followed by a space or wrapped
  in parentheses around a one-line payload in braces, yield that name and that payload.
  A payload that \<^verbatim>\<open>JSON.parse\<close> accepts gives its value; one that it rejects gives
  what the manual extraction finds, an object whose values are strings and natural
  numbers only; and when that fails as well the arguments are the empty object, with
  which the tool is still invoked.
\<close>

theorem argument_parsing_tiers:
  "(name \<noteq> [] \<and> (\<forall>c \<in> set name. is_word c) \<and> p \<noteq> [] \<and> hd p = CHR ''{'' \<and> last p = CHR ''}''
      \<and> (\<forall>c \<in> set p. \<not> is_line_terminator c)
    \<longrightarrow> parse_tool_command (''TOOL: '' @ name @ '' '' @ p) = (name, p)
        \<and> parse_tool_command (''TOOL: '' @ name @ ''('' @ p @ '')'') = (name, p))
 \<and> (argsJson \<noteq> [] \<and> parse argsJson = Some v \<longrightarrow> parse_args parse argsJson = v)
 \<and> (parse argsJson = None \<and> manual_extract argsJson = Some obj
    \<longrightarrow> parse_args parse argsJson = obj
        \<and> (\<exists>ps. obj = JObject ps \<and> (\<forall>(k, x) \<in> set ps. is_scraped_value x)))
 \<and> (parse argsJson = None \<and> manual_extract argsJson = None
    \<longrightarrow> parse_args parse argsJson = JObject [])
 \<and> (toLowerCase (trim answer) \<noteq> ''exit''
      \<and> callLLM E (join [nl] (history @ [''User: '' @ trim answer])) = Inr llmReply
      \<and> prefix ''TOOL:'' llmReply
      \<and> JSON_parse E (snd (parse_tool_command llmReply)) = None
      \<and> manual_extract (snd (parse_tool_command llmReply)) = None
    \<longrightarrow> ext_calls (turn E history answer) ! 1 = ToolCall (fst (parse_tool_command llmReply)) (JObject []))"
proof -
  have surface: "name \<noteq> [] \<and> (\<forall>c \<in> set name. is_word c) \<and> p \<noteq> [] \<and> hd p = CHR ''{'' \<and> last p = CHR ''}''
      \<and> (\<forall>c \<in> set p. \<not> is_line_terminator c)
    \<longrightarrow> parse_tool_command (''TOOL: '' @ name @ '' '' @ p) = (name, p)
        \<and> parse_tool_command (''TOOL: '' @ name @ ''('' @ p @ '')'') = (name, p)"
    using parse_space_form [of name p] parse_paren_form [of name p] by blast
  have strict: "argsJson \<noteq> [] \<and> parse argsJson = Some v \<longrightarrow> parse_args parse argsJson = v"
    by (simp add: parse_args_def)
  have scrape: "parse argsJson = None \<and> manual_extract argsJson = Some obj
    \<longrightarrow> parse_args parse argsJson = obj
        \<and> (\<exists>ps. obj = JObject ps \<and> (\<forall>(k, x) \<in> set ps. is_scraped_value x))"
    using manual_extract_values [of argsJson obj] manual_extract_Nil
    by (auto simp add: parse_args_def)
  have empty: "parse argsJson = None \<and> manual_extract argsJson = None
    \<longrightarrow> parse_args parse argsJson = JObject []"
    by (simp add: parse_args_def)
  have invoked: "toLowerCase (trim answer) \<noteq> ''exit''
      \<and> callLLM E (join [nl] (history @ [''User: '' @ trim answer])) = Inr llmReply
      \<and> prefix ''TOOL:'' llmReply
      \<and> JSON_parse E (snd (parse_tool_command llmReply)) = None
      \<and> manual_extract (snd (parse_tool_command llmReply)) = None
    \<longrightarrow> ext_calls (turn E history answer) ! 1 = ToolCall (fst (parse_tool_command llmReply)) (JObject [])"
  proof
    assume a: "toLowerCase (trim answer) \<noteq> ''exit''
      \<and> callLLM E (join [nl] (history @ [''User: '' @ trim answer])) = Inr llmReply
      \<and> prefix ''TOOL:'' llmReply
      \<and> JSON_parse E (snd (parse_tool_command llmReply)) = None
      \<and> manual_extract (snd (parse_tool_command llmReply)) = None"
    then have args: "parse_args (JSON_parse E) (snd (parse_tool_command llmReply)) = JObject []"
      by (simp add: parse_args_def)
    from a have t: "toLowerCase (trim answer) \<noteq> ''exit''"
      and l: "callLLM E (join [nl] (history @ [''User: '' @ trim answer])) = Inr llmReply"
      and m: "prefix ''TOOL:'' llmReply" by simp_all
    show "ext_calls (turn E history answer) ! 1 = ToolCall (fst (parse_tool_command llmReply)) (JObject [])"
      unfolding turn_reply [OF t l] using m args
      by (simp add: Let_def split: sum.splits)
  qed
  from surface strict scrape empty invoked show ?thesis by blast
qed

text \<open>
  Claim C7 at a payload with unquoted keys, read in both surface forms and scraped, and
  at a payload without any quote, for which the tool is invoked with the empty object.
\<close>

theorem argument_parsing_tiers_witness:
  "parse_tool_command (''TOOL: '' @ ''moveToken'' @ '' '' @ unquoted_payload) = (''moveToken'', unquoted_payload)
 \<and> parse_tool_command (''TOOL: '' @ ''moveToken'' @ ''('' @ unquoted_payload @ '')'') = (''moveToken'', unquoted_payload)
 \<and> json_parse example_payload
      = Some (JObject [(''tokenAddress'', JString ''0xabc''), (''amount'', JNumber 5),
                       (''destinationAccount'', JString ''0xdef'')])
 \<and> parse_args json_parse example_payload
      = JObject [(''tokenAddress'', JString ''0xabc''), (''amount'', JNumber 5),
                 (''destinationAccount'', JString ''0xdef'')]
 \<and> json_parse unquoted_payload = None
 \<and> parse_args json_parse unquoted_payload
      = JObject [(''tokenAddress'', JString ''0xabc''), (''amount'', JNumber 5)]
 \<and> json_parse bare_payload = None
 \<and> manual_extract bare_payload = None
 \<and> parse_args json_parse bare_payload = JObject []
 \<and> ext_calls (turn (scripted_client (\<lambda>p. ''TOOL: moveToken '' @ bare_payload) (Settles 5 (Inr [''ok''])))
        [] ''move my tokens'') ! 1 = ToolCall ''moveToken'' (JObject [])"
proof -
  let ?E = "scripted_client (\<lambda>p. ''TOOL: moveToken '' @ bare_payload) (Settles 5 (Inr [''ok'']))"
  have nm: "''moveToken'' \<noteq> [] \<and> (\<forall>c \<in> set ''moveToken''. is_word c)"
    by (simp add: is_word_def)
  have pl: "unquoted_payload \<noteq> [] \<and> hd unquoted_payload = CHR ''{'' \<and> last unquoted_payload = CHR ''}''
            \<and> (\<forall>c \<in> set unquoted_payload. \<not> is_line_terminator c)"
    by (simp add: unquoted_payload_def is_line_terminator_def)
  have s1: "json_parse example_payload
      = Some (JObject [(''tokenAddress'', JString ''0xabc''), (''amount'', JNumber 5),
                       (''destinationAccount'', JString ''0xdef'')])"
    by code_simp
  have e1: "example_payload \<noteq> []"
    by (simp add: example_payload_def)
  have u1: "json_parse unquoted_payload = None"
    by code_simp
  have u2: "manual_extract unquoted_payload
              = Some (JObject [(''tokenAddress'', JString ''0xabc''), (''amount'', JNumber 5)])"
    by code_simp
  have b1: "json_parse bare_payload = None"
    by code_simp
  have b2: "manual_extract bare_payload = None"
    by code_simp
  have ex: "toLowerCase (trim ''move my tokens'') \<noteq> ''exit''"
    by (simp add: toLowerCase_def trim_def is_space_def)
  have pc: "parse_tool_command (''TOOL: moveToken '' @ bare_payload) = (''moveToken'', bare_payload)"
    by code_simp
  have mk: "prefix ''TOOL:'' (''TOOL: moveToken '' @ bare_payload)"
    by simp
  note t1 = argument_parsing_tiers [of "''moveToken''" unquoted_payload example_payload json_parse
      "JObject [(''tokenAddress'', JString ''0xabc''), (''amount'', JNumber 5), (''destinationAccount'', JString ''0xdef'')]"]
  note t2 = argument_parsing_tiers [of _ _ unquoted_payload json_parse _
      "JObject [(''tokenAddress'', JString ''0xabc''), (''amount'', JNumber 5)]"]
  note t3 = argument_parsing_tiers [of _ _ bare_payload json_parse _ _ "''move my tokens''" ?E "[]"
      "''TOOL: moveToken '' @ bare_payload"]
  have c1: "parse_tool_command (''TOOL: '' @ ''moveToken'' @ '' '' @ unquoted_payload) = (''moveToken'', unquoted_payload)
          \<and> parse_tool_command (''TOOL: '' @ ''moveToken'' @ ''('' @ unquoted_payload @ '')'') = (''moveToken'', unquoted_payload)"
    using t1 nm pl by blast
  have c2: "parse_args json_parse example_payload
      = JObject [(''tokenAddress'', JString ''0xabc''), (''amount'', JNumber 5),
                 (''destinationAccount'', JString ''0xdef'')]"
    using t1 s1 e1 by blast
  have c3: "parse_args json_parse unquoted_payload
      = JObject [(''tokenAddress'', JString ''0xabc''), (''amount'', JNumber 5)]"
    using t2 u1 u2 by blast
  have c4: "parse_args json_parse bare_payload = JObject []"
    using t3 b1 b2 by blast
  have c5: "ext_calls (turn ?E [] ''move my tokens'') ! 1 = ToolCall ''moveToken'' (JObject [])"
    using t3 ex scripted_callLLM [of "\<lambda>p. ''TOOL: moveToken '' @ bare_payload" "Settles 5 (Inr [''ok''])"]
      mk b1 b2 pc
    by (simp add: scripted_JSON_parse)
  from c1 c2 c3 c4 c5 s1 u1 b1 b2 show ?thesis by blast
qed

subsection \<open>One dispatch per turn\<close>

text \<open>
  Claim C8. A turn dispatches at most one tool, and a run of the loop at most one per
  answer. Once the tool has returned, the turn makes exactly three requests: the first
  completion, the tool call, and a second completion whose prompt is the transcript,
  with the tool result appended, followed by two line feeds and the sentences
  \<^verbatim>\<open>Provide a helpful summary of the result to the user. Do not call any additional tools.\<close>
  When that second completion returns a reply, the transcript gains one utterance: the
  canned completion if the reply starts with the marker, the reply itself otherwise; in
  both cases exactly one tool was dispatched and the loop goes on.
\<close>

theorem single_dispatch_per_turn:
  "length (filter is_tool_call (ext_calls (turn E history answer))) \<le> 1
 \<and> length (filter is_tool_call (fst (main_loop E history answers))) \<le> length answers
 \<and> (\<forall>p n args q. ext_calls (turn E history answer) = [LLMCall p, ToolCall n args, LLMCall q]
        \<longrightarrow> suffix ([CHR 0x0A, CHR 0x0A] @
              ''Provide a helpful summary of the result to the user. Do not call any additional tools.'') q)
 \<and> (toLowerCase (trim answer) \<noteq> ''exit''
      \<and> callLLM E (join [CHR 0x0A] (history @ [''User: '' @ trim answer])) = Inr llmReply
      \<and> prefix ''TOOL:'' llmReply
      \<and> callToolWithTimeout E (fst (parse_tool_command llmReply))
           (parse_args (JSON_parse E) (snd (parse_tool_command llmReply))) 300000 = Inr toolResult
    \<longrightarrow> ext_calls (turn E history answer)
          = [LLMCall (join [CHR 0x0A] (history @ [''User: '' @ trim answer])),
             ToolCall (fst (parse_tool_command llmReply))
                      (parse_args (JSON_parse E) (snd (parse_tool_command llmReply))),
             LLMCall (join [CHR 0x0A] (history @ [''User: '' @ trim answer,
                        ''Tool result for '' @ fst (parse_tool_command llmReply) @ '': '' @
                          join [CHR 0x0A] toolResult])
                      @ [CHR 0x0A, CHR 0x0A] @
                      ''Provide a helpful summary of the result to the user. Do not call any additional tools.'')])
 \<and> (toLowerCase (trim answer) \<noteq> ''exit''
      \<and> callLLM E (join [CHR 0x0A] (history @ [''User: '' @ trim answer])) = Inr llmReply
      \<and> prefix ''TOOL:'' llmReply
      \<and> callToolWithTimeout E (fst (parse_tool_command llmReply))
           (parse_args (JSON_parse E) (snd (parse_tool_command llmReply))) 300000 = Inr toolResult
      \<and> callLLM E (join [CHR 0x0A] (history @ [''User: '' @ trim answer,
             ''Tool result for '' @ fst (parse_tool_command llmReply) @ '': '' @ join [CHR 0x0A] toolResult])
             @ [CHR 0x0A, CHR 0x0A] @
             ''Provide a helpful summary of the result to the user. Do not call any additional tools.'')
          = Inr followUp
    \<longrightarrow> history_after (turn E history answer)
          = history @ [''User: '' @ trim answer,
                       ''Tool result for '' @ fst (parse_tool_command llmReply) @ '': '' @
                         join [CHR 0x0A] toolResult,
                       if prefix ''TOOL:'' followUp
                       then ''Assistant: The token transfer has been completed successfully! The transaction details are shown above.''
                       else ''Assistant: '' @ followUp]
        \<and> length (filter is_tool_call (ext_calls (turn E history answer))) = 1
        \<and> control (turn E history answer) = Continue)"
proof -
  have one: "length (filter is_tool_call (ext_calls (turn E history answer))) \<le> 1"
    by (rule turn_tool_calls_le)
  have loop: "length (filter is_tool_call (fst (main_loop E history answers))) \<le> length answers"
    by (rule main_loop_tool_calls_le)
  have instr: "\<forall>p n args q. ext_calls (turn E history answer) = [LLMCall p, ToolCall n args, LLMCall q]
        \<longrightarrow> suffix ([CHR 0x0A, CHR 0x0A] @
              ''Provide a helpful summary of the result to the user. Do not call any additional tools.'') q"
    using turn_calls_shape [of E history answer]
    by (auto simp add: suffix_def follow_up_instruction_def nl_def)
  have requested: "toLowerCase (trim answer) \<noteq> ''exit''
      \<and> callLLM E (join [CHR 0x0A] (history @ [''User: '' @ trim answer])) = Inr llmReply
      \<and> prefix ''TOOL:'' llmReply
      \<and> callToolWithTimeout E (fst (parse_tool_command llmReply))
           (parse_args (JSON_parse E) (snd (parse_tool_command llmReply))) 300000 = Inr toolResult
    \<longrightarrow> ext_calls (turn E history answer)
          = [LLMCall (join [CHR 0x0A] (history @ [''User: '' @ trim answer])),
             ToolCall (fst (parse_tool_command llmReply))
                      (parse_args (JSON_parse E) (snd (parse_tool_command llmReply))),
             LLMCall (join [CHR 0x0A] (history @ [''User: '' @ trim answer,
                        ''Tool result for '' @ fst (parse_tool_command llmReply) @ '': '' @
                          join [CHR 0x0A] toolResult])
                      @ [CHR 0x0A, CHR 0x0A] @
                      ''Provide a helpful summary of the result to the user. Do not call any additional tools.'')]"
  proof
    assume a: "toLowerCase (trim answer) \<noteq> ''exit''
      \<and> callLLM E (join [CHR 0x0A] (history @ [''User: '' @ trim answer])) = Inr llmReply
      \<and> prefix ''TOOL:'' llmReply
      \<and> callToolWithTimeout E (fst (parse_tool_command llmReply))
           (parse_args (JSON_parse E) (snd (parse_tool_command llmReply))) 300000 = Inr toolResult"
    then have t: "toLowerCase (trim answer) \<noteq> ''exit''"
      and l: "callLLM E (join [nl] (history @ [''User: '' @ trim answer])) = Inr llmReply"
      and m: "prefix ''TOOL:'' llmReply"
      and c: "callToolWithTimeout E (fst (parse_tool_command llmReply))
           (parse_args (JSON_parse E) (snd (parse_tool_command llmReply))) default_tool_timeout_ms = Inr toolResult"
      by (simp_all add: nl_def default_tool_timeout_ms_def)
    show "ext_calls (turn E history answer)
          = [LLMCall (join [CHR 0x0A] (history @ [''User: '' @ trim answer])),
             ToolCall (fst (parse_tool_command llmReply))
                      (parse_args (JSON_parse E) (snd (parse_tool_command llmReply))),
             LLMCall (join [CHR 0x0A] (history @ [''User: '' @ trim answer,
                        ''Tool result for '' @ fst (parse_tool_command llmReply) @ '': '' @
                          join [CHR 0x0A] toolResult])
                      @ [CHR 0x0A, CHR 0x0A] @
                      ''Provide a helpful summary of the result to the user. Do not call any additional tools.'')]"
      unfolding turn_reply [OF t l] using m c
      by (simp add: Let_def follow_up_instruction_def nl_def split: sum.splits)
  qed
  have substituted: "toLowerCase (trim answer) \<noteq> ''exit''
      \<and> callLLM E (join [CHR 0x0A] (history @ [''User: '' @ trim answer])) = Inr llmReply
      \<and> prefix ''TOOL:'' llmReply
      \<and> callToolWithTimeout E (fst (parse_tool_command llmReply))
           (parse_args (JSON_parse E) (snd (parse_tool_command llmReply))) 300000 = Inr toolResult
      \<and> callLLM E (join [CHR 0x0A] (history @ [''User: '' @ trim answer,
             ''Tool result for '' @ fst (parse_tool_command llmReply) @ '': '' @ join [CHR 0x0A] toolResult])
             @ [CHR 0x0A, CHR 0x0A] @
             ''Provide a helpful summary of the result to the user. Do not call any additional tools.'')
          = Inr followUp
    \<longrightarrow> history_after (turn E history answer)
          = history @ [''User: '' @ trim answer,
                       ''Tool result for '' @ fst (parse_tool_command llmReply) @ '': '' @
                         join [CHR 0x0A] toolResult,
                       if prefix ''TOOL:'' followUp
                       then ''Assistant: The token transfer has been completed successfully! The transaction details are shown above.''
                       else ''Assistant: '' @ followUp]
        \<and> length (filter is_tool_call (ext_calls (turn E history answer))) = 1
        \<and> control (turn E history answer) = Continue"
  proof
    assume a: "toLowerCase (trim answer) \<noteq> ''exit''
      \<and> callLLM E (join [CHR 0x0A] (history @ [''User: '' @ trim answer])) = Inr llmReply
      \<and> prefix ''TOOL:'' llmReply
      \<and> callToolWithTimeout E (fst (parse_tool_command llmReply))
           (parse_args (JSON_parse E) (snd (parse_tool_command llmReply))) 300000 = Inr toolResult
      \<and> callLLM E (join [CHR 0x0A] (history @ [''User: '' @ trim answer,
             ''Tool result for '' @ fst (parse_tool_command llmReply) @ '': '' @ join [CHR 0x0A] toolResult])
             @ [CHR 0x0A, CHR 0x0A] @
             ''Provide a helpful summary of the result to the user. Do not call any additional tools.'')
          = Inr followUp"
    then have t: "toLowerCase (trim answer) \<noteq> ''exit''"
      and l: "callLLM E (join [nl] (history @ [''User: '' @ trim answer])) = Inr llmReply"
      and m: "prefix ''TOOL:'' llmReply"
      and c: "callToolWithTimeout E (fst (parse_tool_command llmReply))
           (parse_args (JSON_parse E) (snd (parse_tool_command llmReply))) default_tool_timeout_ms = Inr toolResult"
      and f: "callLLM E (join [nl] (history @ [''User: '' @ trim answer,
             ''Tool result for '' @ fst (parse_tool_command llmReply) @ '': '' @ join [nl] toolResult])
             @ follow_up_instruction) = Inr followUp"
      by (simp_all add: nl_def default_tool_timeout_ms_def follow_up_instruction_def)
    show "history_after (turn E history answer)
          = history @ [''User: '' @ trim answer,
                       ''Tool result for '' @ fst (parse_tool_command llmReply) @ '': '' @
                         join [CHR 0x0A] toolResult,
                       if prefix ''TOOL:'' followUp
                       then ''Assistant: The token transfer has been completed successfully! The transaction details are shown above.''
                       else ''Assistant: '' @ followUp]
        \<and> length (filter is_tool_call (ext_calls (turn E history answer))) = 1
        \<and> control (turn E history answer) = Continue"
      unfolding turn_reply [OF t l] using m c f
      by (simp add: Let_def canned_completion_def nl_def)
  qed
  from one loop instr requested substituted show ?thesis by blast
qed

text \<open>
  Claim C8 at an endpoint that answers every request with a tool command: the three
  requests, the canned completion in the transcript, one dispatch.
\<close>

theorem single_dispatch_per_turn_witness:
  "ext_calls (turn (scripted_client (\<lambda>p. ''TOOL: helloWorld'') (Settles 5 (Inr [''Hello, world!!''])))
      [''SYSTEM: tools''] ''hi'')
     = [LLMCall (''SYSTEM: tools'' @ [CHR 0x0A] @ ''User: hi''),
        ToolCall ''helloWorld'' (JObject []),
        LLMCall (''SYSTEM: tools'' @ [CHR 0x0A] @ ''User: hi'' @ [CHR 0x0A] @
                 ''Tool result for helloWorld: Hello, world!!'' @ [CHR 0x0A, CHR 0x0A] @
                 ''Provide a helpful summary of the result to the user. Do not call any additional tools.'')]
 \<and> history_after (turn (scripted_client (\<lambda>p. ''TOOL: helloWorld'') (Settles 5 (Inr [''Hello, world!!''])))
      [''SYSTEM: tools''] ''hi'')
     = [''SYSTEM: tools'', ''User: hi'', ''Tool result for helloWorld: Hello, world!!'',
        ''Assistant: The token transfer has been completed successfully! The transaction details are shown above.'']
 \<and> length (filter is_tool_call (ext_calls (turn (scripted_client (\<lambda>p. ''TOOL: helloWorld'')
      (Settles 5 (Inr [''Hello, world!!'']))) [''SYSTEM: tools''] ''hi''))) = 1
 \<and> control (turn (scripted_client (\<lambda>p. ''TOOL: helloWorld'') (Settles 5 (Inr [''Hello, world!!''])))
      [''SYSTEM: tools''] ''hi'') = Continue"
proof -
  let ?E = "scripted_client (\<lambda>p. ''TOOL: helloWorld'') (Settles 5 (Inr [''Hello, world!!'']))"
  have ex: "toLowerCase (trim ''hi'') \<noteq> ''exit''"
    by (simp add: toLowerCase_def trim_def is_space_def)
  have tr: "trim ''hi'' = ''hi''"
    by (simp add: trim_def is_space_def)
  have pc: "parse_tool_command ''TOOL: helloWorld'' = (''helloWorld'', [])"
    by code_simp
  have pa: "parse_args json_parse [] = JObject []"
    by (simp add: parse_args_def)
  have mk: "prefix ''TOOL:'' ''TOOL: helloWorld''"
    by simp
  have ct: "callToolWithTimeout ?E ''helloWorld'' (JObject []) 300000 = Inr [''Hello, world!!'']"
    using scripted_callTool [of "\<lambda>p. ''TOOL: helloWorld''" "[''Hello, world!!'']" "''helloWorld''" "JObject []"]
    by (simp add: default_tool_timeout_ms_def)
  show ?thesis
    using single_dispatch_per_turn [of ?E "[''SYSTEM: tools'']" "''hi''" "[]" "''TOOL: helloWorld''"
            "[''Hello, world!!'']" "''TOOL: helloWorld''"]
      ex mk ct scripted_callLLM [of "\<lambda>p. ''TOOL: helloWorld''" "Settles 5 (Inr [''Hello, world!!''])"]
    by (simp add: pc pa tr scripted_JSON_parse)
qed

section \<open>Timeouts and startup\<close>

text \<open>
  A tool call that has not settled when its timer fires is rejected with an error whose
  message gives the timer's duration in seconds; a completion that has not settled after
  100000 ms is rejected with an error whose message says 30 seconds.
\<close>

lemma callToolWithTimeout_late:
  "mcp_callTool E toolName args = Never \<or> (\<exists>t r. mcp_callTool E toolName args = Settles t r \<and> timeoutMs \<le> t)
   \<Longrightarrow> callToolWithTimeout E toolName args timeoutMs
         = Inl (Error (''Tool '' @ [CHR 0x27] @ toolName @ [CHR 0x27] @ '' timed out after '' @
                       show_thousandths timeoutMs @ '' seconds''))"
  by (auto simp add: callToolWithTimeout_def tool_timeout_error_def)

lemma show_thousandths_default: "show_thousandths default_tool_timeout_ms = ''300''"
  by (simp add: show_thousandths_def default_tool_timeout_ms_def show_nat.simps digit_char_def)

lemma callLLM_late:
  "fetch E \<lparr>endpoint = (case process_env E ''LLAMA_API_URL'' of
                        None \<Rightarrow> ''http://localhost:11434/api/generate'' | Some u \<Rightarrow> u),
            headers = [(''Content-Type'', ''application/json'')] @
                    (case process_env E ''LLAMA_API_KEY'' of
                       None \<Rightarrow> []
                     | Some k \<Rightarrow> if k = [] then [] else [(''Authorization'', ''Bearer '' @ k)]),
            body_model = ''llama3.2'', body_prompt = conversation, body_stream = False\<rparr> = Settles t r
   \<Longrightarrow> 100000 \<le> t
   \<Longrightarrow> callLLM E conversation = Inl (Error ''LLM request timed out after 30 seconds'')"
  by (simp add: callLLM_def llm_abort_ms_def llm_timeout_error_def Let_def)

text \<open>
  Claim C9, on the code. A completion that arrives after 99999 ms is still returned, so
  the wait is 100 seconds, while the error raised at 100000 ms, or when the endpoint never
  answers, says \<^verbatim>\<open>LLM request timed out after 30 seconds\<close>. The tool wrapper's
  message states its budget of 300 seconds.
\<close>

theorem callLLM_timeout_message:
  "callLLM (timed_client (Settles 99999 (Inr (llm_response ''Hello''))) Never) ''User: hi'' = Inr ''Hello''
 \<and> callLLM (timed_client (Settles 100000 (Inr (llm_response ''Hello''))) Never) ''User: hi''
      = Inl (Error ''LLM request timed out after 30 seconds'')
 \<and> callLLM (timed_client Never Never) ''User: hi''
      = Inl (Error ''LLM request timed out after 30 seconds'')
 \<and> callToolWithTimeout (timed_client Never Never) ''moveToken'' (JObject []) default_tool_timeout_ms
      = Inl (Error (''Tool '' @ [CHR 0x27] @ ''moveToken'' @ [CHR 0x27] @ '' timed out after 300 seconds''))"
  by (simp add: callLLM_def timed_client_def llm_response_def llm_abort_ms_def llm_timeout_error_def
        callToolWithTimeout_def tool_timeout_error_def show_thousandths_default)

text \<open>
  The validation passes exactly when the four required variables are set and not empty.
\<close>

lemma validateConfig_ok:
  "validateConfig env = Inr () \<longleftrightarrow>
     (\<forall>k \<in> set [''RPC_URL'', ''PRIVATE_KEY'', ''ROUTER_ADDRESS'', ''DESTINATION_CHAIN_SELECTOR''].
        \<exists>s. env k = Some s \<and> s \<noteq> [])"
  by (auto simp add: validateConfig_def required_def config_def falsy_def Let_def split: option.splits)

text \<open>
  Claim C10, on the code. With an empty environment, or with the router address alone
  missing, \<^verbatim>\<open>validateConfig\<close> raises the error that names what is missing, but
  \<^verbatim>\<open>start\<close> does not call it and listens all the same; the moveToken handler then
  runs with the router address undefined and makes its three calls.
\<close>

theorem startup_without_configuration:
  "validateConfig Map.empty
     = Inl (Error ''Missing required environment variables: rpcUrl, privateKey, routerAddress, destinationChainSelector'')
 \<and> start Map.empty = Listening 3001 [''helloWorld'', ''getCurrentTime'', ''moveToken'']
 \<and> validateConfig (sample_env(''ROUTER_ADDRESS'' := None))
     = Inl (Error ''Missing required environment variables: routerAddress'')
 \<and> start (sample_env(''ROUTER_ADDRESS'' := None)) = Listening 3001 [''helloWorld'', ''getCurrentTime'', ''moveToken'']
 \<and> calls_of (moveToken (sample_providers (Inr 10) (Inr ()) (Inr (''0xhash'', ''0xmsg'')))
       (sample_env(''ROUTER_ADDRESS'' := None)) (sample_input 5))
     = [ReadContract \<lparr>pc_transport = Some ''https://rpc.example''\<rparr> ''0xabc'' ''balanceOf'' [''0xsender''],
        ApproveRouter \<lparr>wc_transport = Some ''https://rpc.example'', wc_account = Account ''0xsender''\<rparr>
          None ''0xabc'' 5 True,
        TransferTokens \<lparr>wc_transport = Some ''https://rpc.example'', wc_account = Account ''0xsender''\<rparr>
          None ''0xabc'' 5 ''0xdef'' (Some ''3478487238524512106'')]"
  by (simp add: validateConfig_def required_def config_def falsy_def start_def sample_env_def
        moveToken_steps calls_of_def sample_providers_def sample_input_def BigInt_def
        balance_call_def approve_call_def send_call_def)

end
